theory Spec2Isabelle
  imports Complex_Main "HOL-Library.Char_ord" "HOL-Library.List_Lexorder"
begin

section \<open>Python values shared by both indexing classes\<close>

text \<open>
  The two source files are \<^verbatim>\<open>pprl2partyknnsorted.py\<close> (sorted-neighbourhood
  k-anonymous blocking) and \<^verbatim>\<open>pprlpsig.py\<close> (p-sig Bloom-filter blocking).
  Exceptions are values: every function that can raise returns \<open>py_error + 'a\<close>.
  Strings are compared as Python compares them, lexicographically by character code.
\<close>

datatype py_error =
  KeyError | IndexError | StopIteration | ValueError | AttributeError
  | TypeError | ZeroDivisionError | AssertionError

text \<open>
  An instance attribute is either not bound at all (reading it raises AttributeError),
  bound to Python's \<^verbatim>\<open>None\<close>, or bound to a value.
\<close>

datatype 'a attr = Unbound | IsNone | Val 'a

text \<open>
  A Python dict is an association list in insertion order with distinct keys:
  assignment overwrites in place or appends, \<^verbatim>\<open>del\<close> removes the entry.
\<close>

type_synonym ('k, 'v) dict = "('k \<times> 'v) list"

fun dict_get :: "('k, 'v) dict \<Rightarrow> 'k \<Rightarrow> 'v option" where
  "dict_get [] key = None"
| "dict_get ((k', v) # d) key = (if k' = key then Some v else dict_get d key)"

fun dict_set :: "('k, 'v) dict \<Rightarrow> 'k \<Rightarrow> 'v \<Rightarrow> ('k, 'v) dict" where
  "dict_set [] key val = [(key, val)]"
| "dict_set ((k', v) # d) key val =
     (if k' = key then (k', val) # d else (k', v) # dict_set d key val)"

fun dict_del :: "('k, 'v) dict \<Rightarrow> 'k \<Rightarrow> ('k, 'v) dict" where
  "dict_del [] key = []"
| "dict_del ((k', v) # d) key = (if k' = key then d else (k', v) # dict_del d key)"

text \<open>
  \<^verbatim>\<open>xs[i]\<close> on a Python list: positions \<open>0 .. len-1\<close> from the front,
  \<open>-len .. -1\<close> from the back, IndexError for the rest.
\<close>

definition py_index :: "'a list \<Rightarrow> int \<Rightarrow> py_error + 'a" where
  "py_index xs i =
     (if 0 \<le> i \<and> i < int (length xs) then Inr (xs ! nat i)
      else if i < 0 \<and> - int (length xs) \<le> i then Inr (xs ! nat (int (length xs) + i))
      else Inl IndexError)"

subsection \<open>Decimal rendering and parsing of block-key positions\<close>

definition digit_char :: "nat \<Rightarrow> char" where
  "digit_char d = char_of (48 + d)"

fun str_nat :: "nat \<Rightarrow> string" where
  "str_nat n = (if n < 10 then [digit_char n] else str_nat (n div 10) @ [digit_char (n mod 10)])"

declare str_nat.simps [simp del]

text \<open>\<^verbatim>\<open>str(i)\<close> for an integer.\<close>

definition str_int :: "int \<Rightarrow> string" where
  "str_int i = (if i < 0 then CHR ''-'' # str_nat (nat (- i)) else str_nat (nat i))"

definition is_digit :: "char \<Rightarrow> bool" where
  "is_digit c = (48 \<le> (of_char c :: nat) \<and> (of_char c :: nat) \<le> 57)"

definition digits_val :: "string \<Rightarrow> nat" where
  "digits_val s = foldl (\<lambda>acc c. 10 * acc + ((of_char c :: nat) - 48)) 0 s"

text \<open>
  \<^verbatim>\<open>int(s)\<close> on the strings a block key is made of: an optional sign followed by
  one or more decimal digits; anything else (the empty string too) raises ValueError.
\<close>

definition int_of_str :: "string \<Rightarrow> py_error + int" where
  "int_of_str s =
     (case s of
        [] \<Rightarrow> Inl ValueError
      | c # cs \<Rightarrow>
          if c = CHR ''-'' \<or> c = CHR ''+'' then
            (if cs \<noteq> [] \<and> list_all is_digit cs
             then Inr (if c = CHR ''-'' then - int (digits_val cs) else int (digits_val cs))
             else Inl ValueError)
          else if list_all is_digit s then Inr (int (digits_val s)) else Inl ValueError)"

text \<open>\<^verbatim>\<open>s.split('_')\<close>: the pieces between the separators, empty pieces kept.\<close>

fun split_on :: "char \<Rightarrow> string \<Rightarrow> string \<Rightarrow> string list" where
  "split_on sep cur [] = [rev cur]"
| "split_on sep cur (c # cs) =
     (if c = sep then rev cur # split_on sep [] cs else split_on sep (c # cur) cs)"

definition split_underscore :: "string \<Rightarrow> string list" where
  "split_underscore s = split_on (CHR ''_'') [] s"

text \<open>\<^verbatim>\<open>needle in haystack\<close> for strings: the substring test.\<close>

fun starts_with :: "string \<Rightarrow> string \<Rightarrow> bool" where
  "starts_with [] hay = True"
| "starts_with (c # cs) [] = False"
| "starts_with (c # cs) (h # hs) = (c = h \<and> starts_with cs hs)"

fun str_in :: "string \<Rightarrow> string \<Rightarrow> bool" where
  "str_in needle [] = (needle = [])"
| "str_in needle (h # hs) = (starts_with needle (h # hs) \<or> str_in needle hs)"

subsection \<open>The standard library's bisect and sliding window\<close>

text \<open>
  \<^verbatim>\<open>bisect.bisect(a, x)\<close> is \<^verbatim>\<open>bisect_right\<close>: binary search with
  \<^verbatim>\<open>lo = 0, hi = len(a)\<close>; \<^verbatim>\<open>mid\<close> stays below \<open>hi\<close>, hence in range.
\<close>

function bisect_loop :: "string list \<Rightarrow> string \<Rightarrow> nat \<Rightarrow> nat \<Rightarrow> nat" where
  "bisect_loop a x lo hi =
     (if lo < hi then
        (if x < a ! ((lo + hi) div 2) then bisect_loop a x lo ((lo + hi) div 2)
         else bisect_loop a x ((lo + hi) div 2 + 1) hi)
      else lo)"
  by pat_completeness auto
termination
  by (relation "measure (\<lambda>(a, x, lo, hi). hi - lo)") auto

declare bisect_loop.simps [simp del]

definition bisect :: "string list \<Rightarrow> string \<Rightarrow> nat" where
  "bisect a x = bisect_loop a x 0 (length a)"

section \<open>Sorted-neighbourhood k-anonymous blocking\<close>

datatype mode = SIM | SIZE

type_synonym 'id rec_dict = "('id, string list) dict"
type_synonym 'id block_index = "(string, 'id list) dict"

text \<open>
  The instance of \<^verbatim>\<open>PPRLIndex2PartyKAnonymousSortedNeighbour\<close>; the field
  \<open>self_x\<close> is the attribute \<^verbatim>\<open>self.x\<close>. The attributes
  bound by \<^verbatim>\<open>__init__\<close> come first; the others are bound by a later method (or by
  the database loader of the base class, which is not part of these sources) and are
  \<open>Unbound\<close> in a new instance. \<open>self_SORTED_FIRST_VAL\<close> is the constant \<^verbatim>\<open>SORTED_FIRST_VAL\<close> of the absent
  \<^verbatim>\<open>config\<close> module, carried as a field.
\<close>

record 'id snn =
  self_k :: int
  self_w :: int
  self_sim_measure :: "string \<Rightarrow> string \<Rightarrow> real"
  self_min_sim_threshold :: real
  self_sim_or_size :: mode
  self_ref_val_list_alice :: "string list option"
  self_ref_val_list_bob :: "string list option"
  self_ref_ind_dict_alice :: "(nat \<rightharpoonup> string) option"
  self_ref_ind_dict_bob :: "(nat \<rightharpoonup> string) option"
  self_alice_rep_vals :: "string list"
  self_bob_rep_vals :: "string list"
  self_alice_rep_index :: "(string, string) dict"
  self_bob_rep_index :: "(string, string) dict"
  self_SORTED_FIRST_VAL :: string
  self_rec_dict_alice :: "'id rec_dict attr"
  self_rec_dict_bob :: "'id rec_dict attr"
  self_sort_ref_val_list_alice :: "string list attr"
  self_sort_ref_val_list_bob :: "string list attr"
  self_attr_select_list_alice :: "int list attr"
  self_attr_select_list_bob :: "int list attr"
  self_index_alice :: "'id block_index attr"
  self_index_bob :: "'id block_index attr"
  self_block_dict :: "(nat, 'id list \<times> 'id list) dict attr"

subsection \<open>Bucketing the records\<close>

text \<open>The sort-key value: the selected columns of a record, concatenated.\<close>

fun sk_val_of :: "string list \<Rightarrow> int list \<Rightarrow> string \<Rightarrow> py_error + string" where
  "sk_val_of rec_lst [] sk_val = Inr sk_val"
| "sk_val_of rec_lst (col_num # cols) sk_val =
     (case py_index rec_lst col_num of
        Inl e \<Rightarrow> Inl e
      | Inr s \<Rightarrow> sk_val_of rec_lst cols (sk_val @ s))"

text \<open>
  The first loop of \<^verbatim>\<open>__generate_sorted_index__\<close>: each record identifier is
  appended to the list stored under the reference value at its bisect position.
\<close>

fun insert_records ::
  "string list \<Rightarrow> (nat \<rightharpoonup> string) \<Rightarrow> int list \<Rightarrow> 'id rec_dict \<Rightarrow>
   (string \<rightharpoonup> 'id list) \<Rightarrow> py_error + (string \<rightharpoonup> 'id list)" where
  "insert_records sort_ref_val_list ref_ind_dict attr_select_list [] ref_val_dict =
     Inr ref_val_dict"
| "insert_records sort_ref_val_list ref_ind_dict attr_select_list ((rec_id, rec_lst) # rest)
     ref_val_dict =
     (case sk_val_of rec_lst attr_select_list [] of
        Inl e \<Rightarrow> Inl e
      | Inr sk_val \<Rightarrow>
          (case ref_ind_dict (bisect sort_ref_val_list sk_val) of
             None \<Rightarrow> Inl KeyError
           | Some ref_val \<Rightarrow>
               (case ref_val_dict ref_val of
                  None \<Rightarrow> Inl KeyError
                | Some skvs_list \<Rightarrow>
                    insert_records sort_ref_val_list ref_ind_dict attr_select_list rest
                      (ref_val_dict(ref_val \<mapsto> skvs_list @ [rec_id])))))"

text \<open>The reference dictionary before the records go in: every key maps to the empty list.\<close>

definition init_ref_val_dict :: "string \<Rightarrow> string list \<Rightarrow> (string \<rightharpoonup> 'id list)" where
  "init_ref_val_dict first_val sort_ref_val_list =
     foldl (\<lambda>d ref_val. d(ref_val \<mapsto> [])) (Map.empty(first_val \<mapsto> [])) sort_ref_val_list"

subsection \<open>The merge sweep (SIM mode)\<close>

text \<open>
  The inner \<^verbatim>\<open>while\<close>: the state is \<open>(num_elements, j, this_blk_elements_list,
  sim_val)\<close>. It runs at most \<open>len_sort_ref_list - i\<close> times.
\<close>

function grow ::
  "int \<Rightarrow> (string \<Rightarrow> string \<Rightarrow> real) \<Rightarrow> real \<Rightarrow> (nat \<rightharpoonup> string) \<Rightarrow> (string \<rightharpoonup> 'id list) \<Rightarrow>
   nat \<Rightarrow> nat \<Rightarrow> int \<Rightarrow> nat \<Rightarrow> 'id list \<Rightarrow> real \<Rightarrow> py_error + (nat \<times> 'id list)" where
  "grow k sim t ref_ind_dict ref_val_dict len_sort_ref_list i num_elements j
     this_blk_elements_list sim_val =
     (if (num_elements \<le> k \<and> i + j < len_sort_ref_list) \<or>
         (sim_val \<ge> t \<and> i + j < len_sort_ref_list) then
        (case ref_ind_dict (i + j) of
           None \<Rightarrow> Inl KeyError
         | Some this_ref_val \<Rightarrow>
             (case ref_val_dict this_ref_val of
                None \<Rightarrow> Inl KeyError
              | Some this_element_list \<Rightarrow>
                  (if i + j + 1 \<noteq> len_sort_ref_list then
                     (case ref_ind_dict (i + j + 1) of
                        None \<Rightarrow> Inl KeyError
                      | Some next_ref_val \<Rightarrow>
                          grow k sim t ref_ind_dict ref_val_dict len_sort_ref_list i
                            (num_elements + int (length this_element_list)) (j + 1)
                            (this_blk_elements_list @ this_element_list)
                            (sim this_ref_val next_ref_val))
                   else
                     grow k sim t ref_ind_dict ref_val_dict len_sort_ref_list i
                       (num_elements + int (length this_element_list)) (j + 1)
                       (this_blk_elements_list @ this_element_list) sim_val)))
      else Inr (j, this_blk_elements_list))"
  by pat_completeness auto
termination
  by (relation "measure (\<lambda>(k, sim, t, rid, rvd, n, i, num, j, els, sv). n - (i + j))") auto

declare grow.simps [simp del]

text \<open>\<^verbatim>\<open>for b in range(j): block_id += str(i + b) + '_'\<close>\<close>

definition add_positions :: "string \<Rightarrow> nat \<Rightarrow> nat \<Rightarrow> string" where
  "add_positions block_id i j =
     foldl (\<lambda>s b. s @ str_int (int (i + b)) @ ''_'') block_id [0..<j]"

text \<open>
  \<^verbatim>\<open>next(k for (k, v) in block_dict.items() if prev_blk_str in k)\<close>: the first key
  in insertion order that contains the marker, StopIteration when there is none.
\<close>

fun find_prev_blk :: "string \<Rightarrow> 'id block_index \<Rightarrow> string option" where
  "find_prev_blk prev_blk_str [] = None"
| "find_prev_blk prev_blk_str ((key, v) # d) =
     (if str_in prev_blk_str key then Some key else find_prev_blk prev_blk_str d)"

text \<open>
  The rest of one round of the outer loop, after the inner loop has stopped: an undersized
  group is merged with the block whose key holds position \<open>i - 1\<close>; then the block is
  stored under its key. The state is \<open>(block_dict, blk_keys)\<close>.
\<close>

definition store_block ::
  "int \<Rightarrow> nat \<Rightarrow> nat \<Rightarrow> 'id list \<Rightarrow> 'id block_index \<times> string list \<Rightarrow>
   py_error + ('id block_index \<times> string list)" where
  "store_block k i j this_blk_elements_list st =
     (case st of (block_dict, blk_keys) \<Rightarrow>
        if int (length this_blk_elements_list) < k then
          (let prev_blk_str = ''_'' @ str_int (int i - 1) @ ''_'' in
           case find_prev_blk prev_blk_str block_dict of
             None \<Rightarrow> Inl StopIteration
           | Some prev_blk_id \<Rightarrow>
               (case dict_get block_dict prev_blk_id of
                  None \<Rightarrow> Inl KeyError
                | Some prev_blk_elements_list \<Rightarrow>
                    if prev_blk_id \<in> set blk_keys then
                      (let block_id = add_positions prev_blk_id i j in
                       Inr (dict_set (dict_del block_dict prev_blk_id) block_id
                              (this_blk_elements_list @ prev_blk_elements_list),
                            remove1 prev_blk_id blk_keys @ [block_id]))
                    else Inl ValueError))
        else
          (let block_id = add_positions ''b_'' i j in
           Inr (dict_set block_dict block_id this_blk_elements_list, blk_keys @ [block_id])))"

text \<open>
  The outer \<^verbatim>\<open>while i < len_sort_ref_list\<close>. With a negative \<open>k\<close> and a positive
  threshold the inner loop does not run, \<open>j\<close> stays 0 and the source loops forever:
  \<open>None\<close> is that outcome.
\<close>

partial_function (option) sweep ::
  "int \<Rightarrow> (string \<Rightarrow> string \<Rightarrow> real) \<Rightarrow> real \<Rightarrow> (nat \<rightharpoonup> string) \<Rightarrow> (string \<rightharpoonup> 'id list) \<Rightarrow>
   nat \<Rightarrow> nat \<Rightarrow> 'id block_index \<times> string list \<Rightarrow> (py_error + 'id block_index) option" where
  "sweep k sim t ref_ind_dict ref_val_dict len_sort_ref_list i st =
     (if i < len_sort_ref_list then
        (case grow k sim t ref_ind_dict ref_val_dict len_sort_ref_list i 0 0 [] 0 of
           Inl e \<Rightarrow> Some (Inl e)
         | Inr (j, this_blk_elements_list) \<Rightarrow>
             (case store_block k i j this_blk_elements_list st of
                Inl e \<Rightarrow> Some (Inl e)
              | Inr st' \<Rightarrow>
                  sweep k sim t ref_ind_dict ref_val_dict len_sort_ref_list (i + j) st'))
      else Some (Inr (fst st)))"

declare sweep.simps [code]

text \<open>
  \<^verbatim>\<open>__generate_sorted_index__\<close>. Only the SIM branch exists in the source; in SIZE
  mode the empty \<open>block_dict\<close> is returned as it was created.
\<close>

definition generate_sorted_index ::
  "'id snn \<Rightarrow> 'id rec_dict \<Rightarrow> int list \<Rightarrow> string list \<Rightarrow> (nat \<rightharpoonup> string) \<Rightarrow>
   (py_error + 'id block_index) option" where
  "generate_sorted_index self rec_dict attr_select_list sort_ref_val_list ref_ind_dict =
     (case insert_records sort_ref_val_list ref_ind_dict attr_select_list rec_dict
             (init_ref_val_dict (self_SORTED_FIRST_VAL self) sort_ref_val_list) of
        Inl e \<Rightarrow> Some (Inl e)
      | Inr ref_val_dict \<Rightarrow>
          if self_sim_or_size self = SIM then
            sweep (self_k self) (self_sim_measure self) (self_min_sim_threshold self) ref_ind_dict
              ref_val_dict (length sort_ref_val_list) 0 ([], [])
          else Some (Inr []))"


subsection \<open>Sorting the reference values\<close>

text \<open>
  \<^verbatim>\<open>__sort_ref_values_alice__\<close> and its twin for Bob: position 0 holds
  \<^verbatim>\<open>SORTED_FIRST_VAL\<close>, the sorted reference values follow from position 1.
\<close>

definition make_ref_ind_dict :: "string \<Rightarrow> string list \<Rightarrow> (nat \<rightharpoonup> string)" where
  "make_ref_ind_dict first_val sort_ref_val_list =
     snd (foldl (\<lambda>(ind, d) ref_val. (ind + 1, d(ind \<mapsto> ref_val)))
            (1, Map.empty(0 \<mapsto> first_val)) sort_ref_val_list)"

definition sort_ref_values_alice :: "'id snn \<Rightarrow> py_error + 'id snn" where
  "sort_ref_values_alice self =
     (case self_ref_val_list_alice self of
        None \<Rightarrow> Inl AssertionError
      | Some ref_val_list \<Rightarrow>
          (let sort_ref_val_list_alice = sort ref_val_list in
           Inr (self\<lparr> self_ref_ind_dict_alice :=
                        Some (make_ref_ind_dict (self_SORTED_FIRST_VAL self)
                                sort_ref_val_list_alice),
                      self_sort_ref_val_list_alice := Val sort_ref_val_list_alice \<rparr>)))"

definition sort_ref_values_bob :: "'id snn \<Rightarrow> py_error + 'id snn" where
  "sort_ref_values_bob self =
     (case self_ref_val_list_bob self of
        None \<Rightarrow> Inl AssertionError
      | Some ref_val_list \<Rightarrow>
          (let sort_ref_val_list_bob = sort ref_val_list in
           Inr (self\<lparr> self_ref_ind_dict_bob :=
                        Some (make_ref_ind_dict (self_SORTED_FIRST_VAL self)
                                sort_ref_val_list_bob),
                      self_sort_ref_val_list_bob := Val sort_ref_val_list_bob \<rparr>)))"

subsection \<open>Representative reference values\<close>

text \<open>\<^verbatim>\<open>[int(i) for i in key.split('_')[1:-1]]\<close>\<close>

fun parse_ints :: "string list \<Rightarrow> py_error + int list" where
  "parse_ints [] = Inr []"
| "parse_ints (s # ss) =
     (case int_of_str s of
        Inl e \<Rightarrow> Inl e
      | Inr n \<Rightarrow> (case parse_ints ss of Inl e \<Rightarrow> Inl e | Inr ns \<Rightarrow> Inr (n # ns)))"

definition ref_nums_of_key :: "string \<Rightarrow> py_error + int list" where
  "ref_nums_of_key key = parse_ints (butlast (tl (split_underscore key)))"

text \<open>The inner loop: a reference value is registered under the first key that has it.\<close>

fun register_refs ::
  "(nat \<rightharpoonup> string) \<Rightarrow> string \<Rightarrow> int list \<Rightarrow> (string, string) dict \<Rightarrow>
   py_error + (string, string) dict" where
  "register_refs ref_ind_dict key [] rep_index = Inr rep_index"
| "register_refs ref_ind_dict key (ref_num # rest) rep_index =
     (if ref_num < 0 then Inl KeyError
      else
        (case ref_ind_dict (nat ref_num) of
           None \<Rightarrow> Inl KeyError
         | Some ref_val \<Rightarrow>
             register_refs ref_ind_dict key rest
               (if dict_get rep_index ref_val = None then dict_set rep_index ref_val key
                else rep_index)))"

fun select_loop ::
  "(nat \<rightharpoonup> string) \<Rightarrow> string list \<Rightarrow> int list \<times> (string, string) dict \<Rightarrow>
   py_error + (int list \<times> (string, string) dict)" where
  "select_loop ref_ind_dict [] acc = Inr acc"
| "select_loop ref_ind_dict (key # keys_list) (rep_ref_vals, rep_index) =
     (case ref_nums_of_key key of
        Inl e \<Rightarrow> Inl e
      | Inr ref_nums \<Rightarrow>
          (case register_refs ref_ind_dict key ref_nums rep_index of
             Inl e \<Rightarrow> Inl e
           | Inr rep_index' \<Rightarrow>
               select_loop ref_ind_dict keys_list (rep_ref_vals @ ref_nums, rep_index')))"

text \<open>\<^verbatim>\<open>__select_rep_ref_vals__\<close>: every position of every block key is exposed.\<close>

definition select_rep_ref_vals ::
  "'id block_index \<Rightarrow> (nat \<rightharpoonup> string) \<Rightarrow> py_error + (int list \<times> (string, string) dict)" where
  "select_rep_ref_vals block_index ref_ind_dict =
     select_loop ref_ind_dict (map fst block_index) ([], [])"

subsection \<open>Building one party's index\<close>

text \<open>
  \<^verbatim>\<open>for rep_val in rep_vals_in_clust_alice:
      self.alice_rep_vals.append(self.ref_ind_dict_alice[rep_val])\<close>
\<close>

fun append_rep_vals ::
  "(nat \<rightharpoonup> string) \<Rightarrow> int list \<Rightarrow> string list \<Rightarrow> py_error + string list" where
  "append_rep_vals ref_ind_dict [] rep_vals = Inr rep_vals"
| "append_rep_vals ref_ind_dict (rep_val # rest) rep_vals =
     (if rep_val < 0 then Inl KeyError
      else
        (case ref_ind_dict (nat rep_val) of
           None \<Rightarrow> Inl KeyError
         | Some v \<Rightarrow> append_rep_vals ref_ind_dict rest (rep_vals @ [v])))"

text \<open>
  \<^verbatim>\<open>build_index_alice\<close>. \<open>block_stats\<close> is the statistics method of the absent base
  class, taken as a parameter; its result is what the method returns (the elapsed time
  and the log file are left out). An exception ends the call with \<open>Inl\<close>; the instance
  is of interest only after a call that returned.
\<close>

definition build_index_alice ::
  "('id block_index \<Rightarrow> py_error + 'st) \<Rightarrow> int list \<Rightarrow> 'id snn \<Rightarrow>
   (py_error + ('st \<times> 'id snn)) option" where
  "build_index_alice block_stats attr_select_list self0 =
     (let self1 = self0\<lparr> self_attr_select_list_alice := Val attr_select_list \<rparr> in
      case sort_ref_values_alice self1 of
        Inl e \<Rightarrow> Some (Inl e)
      | Inr self2 \<Rightarrow>
          (case (self_rec_dict_alice self2, self_sort_ref_val_list_alice self2,
                 self_ref_ind_dict_alice self2) of
             (Unbound, _, _) \<Rightarrow> Some (Inl AttributeError)
           | (IsNone, _, _) \<Rightarrow> Some (Inl AssertionError)
           | (Val rec_dict, Val sort_ref_val_list, Some ref_ind_dict) \<Rightarrow>
               (case generate_sorted_index self2 rec_dict attr_select_list sort_ref_val_list
                       ref_ind_dict of
                  None \<Rightarrow> None
                | Some (Inl e) \<Rightarrow> Some (Inl e)
                | Some (Inr index) \<Rightarrow>
                    (case select_rep_ref_vals index ref_ind_dict of
                       Inl e \<Rightarrow> Some (Inl e)
                     | Inr (rep_vals_in_clust_alice, rep_index) \<Rightarrow>
                         (case append_rep_vals ref_ind_dict rep_vals_in_clust_alice
                                 (self_alice_rep_vals self2) of
                            Inl e \<Rightarrow> Some (Inl e)
                          | Inr rep_vals \<Rightarrow>
                              (case block_stats index of
                                 Inl e \<Rightarrow> Some (Inl e)
                               | Inr stat \<Rightarrow>
                                   Some (Inr (stat,
                                     self2\<lparr> self_index_alice := Val index,
                                            self_alice_rep_index := rep_index,
                                            self_alice_rep_vals := rep_vals \<rparr>))))))
           | _ \<Rightarrow> Some (Inl AttributeError)))"

definition build_index_bob ::
  "('id block_index \<Rightarrow> py_error + 'st) \<Rightarrow> int list \<Rightarrow> 'id snn \<Rightarrow>
   (py_error + ('st \<times> 'id snn)) option" where
  "build_index_bob block_stats attr_select_list self0 =
     (let self1 = self0\<lparr> self_attr_select_list_bob := Val attr_select_list \<rparr> in
      case sort_ref_values_bob self1 of
        Inl e \<Rightarrow> Some (Inl e)
      | Inr self2 \<Rightarrow>
          (case (self_rec_dict_bob self2, self_sort_ref_val_list_bob self2,
                 self_ref_ind_dict_bob self2) of
             (Unbound, _, _) \<Rightarrow> Some (Inl AttributeError)
           | (IsNone, _, _) \<Rightarrow> Some (Inl AssertionError)
           | (Val rec_dict, Val sort_ref_val_list, Some ref_ind_dict) \<Rightarrow>
               (case generate_sorted_index self2 rec_dict attr_select_list sort_ref_val_list
                       ref_ind_dict of
                  None \<Rightarrow> None
                | Some (Inl e) \<Rightarrow> Some (Inl e)
                | Some (Inr index) \<Rightarrow>
                    (case select_rep_ref_vals index ref_ind_dict of
                       Inl e \<Rightarrow> Some (Inl e)
                     | Inr (rep_vals_in_clust_bob, rep_index) \<Rightarrow>
                         (case append_rep_vals ref_ind_dict rep_vals_in_clust_bob
                                 (self_bob_rep_vals self2) of
                            Inl e \<Rightarrow> Some (Inl e)
                          | Inr rep_vals \<Rightarrow>
                              (case block_stats index of
                                 Inl e \<Rightarrow> Some (Inl e)
                               | Inr stat \<Rightarrow>
                                   Some (Inr (stat,
                                     self2\<lparr> self_index_bob := Val index,
                                            self_bob_rep_index := rep_index,
                                            self_bob_rep_vals := rep_vals \<rparr>))))))
           | _ \<Rightarrow> Some (Inl AttributeError)))"

subsection \<open>Candidate blocks from the sliding window\<close>

text \<open>
  \<^verbatim>\<open>__window__(iterable, size)\<close>: \<^verbatim>\<open>itertools.tee\<close> refuses a negative size,
  makes no iterator for size 0 (so \<^verbatim>\<open>zip()\<close> yields nothing), and otherwise the
  zip yields every run of \<open>sz\<close> consecutive elements.
\<close>

definition window :: "'a list \<Rightarrow> int \<Rightarrow> py_error + 'a list list" where
  "window iterable sz =
     (if sz < 0 then Inl ValueError
      else if sz = 0 then Inr []
      else Inr (map (\<lambda>i. take (nat sz) (drop i iterable))
                  [0..<length iterable + 1 - nat sz]))"

text \<open>\<^verbatim>\<open>xs.index(x)\<close>: the first position of \<open>x\<close>, ValueError when absent.\<close>

fun index_of :: "'a list \<Rightarrow> 'a \<Rightarrow> nat option" where
  "index_of [] x = None"
| "index_of (y # ys) x = (if y = x then Some 0 else map_option Suc (index_of ys x))"

text \<open>
  What the window loops do with one value; the state is \<open>(num_alice_ref, num_bob_ref,
  this_win_alice_ref, this_win_bob_ref)\<close>.
\<close>

definition classify_val ::
  "string list \<Rightarrow> string list \<Rightarrow> string \<Rightarrow> nat \<times> nat \<times> string list \<times> string list \<Rightarrow>
   nat \<times> nat \<times> string list \<times> string list" where
  "classify_val alice_rep_vals bob_rep_vals val st =
     (case st of (num_alice_ref, num_bob_ref, this_win_alice_ref, this_win_bob_ref) \<Rightarrow>
        (let (num_alice_ref, this_win_alice_ref) =
               (if val \<in> set alice_rep_vals then
                  (num_alice_ref + 1,
                   if val \<notin> set this_win_alice_ref then this_win_alice_ref @ [val]
                   else this_win_alice_ref)
                else (num_alice_ref, this_win_alice_ref));
             (num_bob_ref, this_win_bob_ref) =
               (if val \<in> set bob_rep_vals then
                  (num_bob_ref + 1,
                   if val \<notin> set this_win_bob_ref then this_win_bob_ref @ [val]
                   else this_win_bob_ref)
                else (num_bob_ref, this_win_bob_ref))
         in (num_alice_ref, num_bob_ref, this_win_alice_ref, this_win_bob_ref)))"

text \<open>
  \<^verbatim>\<open>while num_alice_ref < w or num_bob_ref < w\<close>: the window takes the element after
  its last one, and the loop breaks when there is none. On a list with a repeated value
  \<^verbatim>\<open>index\<close> can point backwards and the source would not stop: \<open>None\<close>.
\<close>

partial_function (option) extend_window ::
  "string list \<Rightarrow> string list \<Rightarrow> string list \<Rightarrow> int \<Rightarrow>
   string list \<times> nat \<times> nat \<times> string list \<times> string list \<Rightarrow>
   (py_error + (string list \<times> nat \<times> nat \<times> string list \<times> string list)) option" where
  "extend_window rep_val_list alice_rep_vals bob_rep_vals w st =
     (case st of (this_window_list, num_alice_ref, num_bob_ref, refs) \<Rightarrow>
        if int num_alice_ref < w \<or> int num_bob_ref < w then
          (if this_window_list = [] then Some (Inl IndexError)
           else
             (case index_of rep_val_list (last this_window_list) of
                None \<Rightarrow> Some (Inl ValueError)
              | Some current_pos \<Rightarrow>
                  if current_pos + 1 < length rep_val_list then
                    (let next_element = rep_val_list ! (current_pos + 1) in
                     case classify_val alice_rep_vals bob_rep_vals next_element
                            (num_alice_ref, num_bob_ref, refs) of
                       (num_alice_ref', num_bob_ref', refs') \<Rightarrow>
                         extend_window rep_val_list alice_rep_vals bob_rep_vals w
                           (this_window_list @ [next_element], num_alice_ref', num_bob_ref',
                            refs'))
                  else Some (Inr st)))
        else Some (Inr st))"

declare extend_window.simps [code]

text \<open>The pairs of one window go to \<open>cand_ref_list\<close> unless they are there already.\<close>

definition add_pairs :: "string list \<Rightarrow> string list \<Rightarrow> (string \<times> string) list \<Rightarrow>
   (string \<times> string) list" where
  "add_pairs this_win_alice_ref this_win_bob_ref cand_ref_list =
     foldl (\<lambda>cand this_alice_ref.
              foldl (\<lambda>cand this_bob_ref.
                       if (this_alice_ref, this_bob_ref) \<notin> set cand
                       then cand @ [(this_alice_ref, this_bob_ref)] else cand)
                cand this_win_bob_ref)
       cand_ref_list this_win_alice_ref"

text \<open>One round of \<^verbatim>\<open>for each in self.__window__(rep_val_list, skip)\<close>.\<close>

definition process_window ::
  "string list \<Rightarrow> string list \<Rightarrow> string list \<Rightarrow> int \<Rightarrow> string list \<Rightarrow>
   (string \<times> string) list \<Rightarrow> (py_error + (string \<times> string) list) option" where
  "process_window rep_val_list alice_rep_vals bob_rep_vals w each cand_ref_list =
     (case foldl (\<lambda>st val. classify_val alice_rep_vals bob_rep_vals val st) (0, 0, [], []) each of
        (num_alice_ref, num_bob_ref, refs) \<Rightarrow>
          (case extend_window rep_val_list alice_rep_vals bob_rep_vals w
                  (each, num_alice_ref, num_bob_ref, refs) of
             None \<Rightarrow> None
           | Some (Inl e) \<Rightarrow> Some (Inl e)
           | Some (Inr (this_window_list, num_alice_ref', num_bob_ref', this_win_alice_ref,
                        this_win_bob_ref)) \<Rightarrow>
               Some (Inr (add_pairs this_win_alice_ref this_win_bob_ref cand_ref_list))))"

fun window_loop ::
  "string list \<Rightarrow> string list \<Rightarrow> string list \<Rightarrow> int \<Rightarrow> string list list \<Rightarrow>
   (string \<times> string) list \<Rightarrow> (py_error + (string \<times> string) list) option" where
  "window_loop rep_val_list alice_rep_vals bob_rep_vals w [] cand_ref_list =
     Some (Inr cand_ref_list)"
| "window_loop rep_val_list alice_rep_vals bob_rep_vals w (each # rest) cand_ref_list =
     (case process_window rep_val_list alice_rep_vals bob_rep_vals w each cand_ref_list of
        None \<Rightarrow> None
      | Some (Inl e) \<Rightarrow> Some (Inl e)
      | Some (Inr cand') \<Rightarrow> window_loop rep_val_list alice_rep_vals bob_rep_vals w rest cand')"

text \<open>
  The sorted union of the exposed values without \<^verbatim>\<open>SORTED_FIRST_VAL\<close>: a sorted
  list of a set, so every value occurs once.
\<close>

definition make_rep_val_list :: "string \<Rightarrow> string list \<Rightarrow> string list \<Rightarrow> string list" where
  "make_rep_val_list first_val alice_rep_vals bob_rep_vals =
     (let rep_val_list = sort (remdups (alice_rep_vals @ bob_rep_vals)) in
      if first_val \<in> set rep_val_list then remove1 first_val rep_val_list else rep_val_list)"

text \<open>The candidate pairs of a whole run: the list \<open>cand_ref_list\<close> after the window loop.\<close>

definition candidate_pairs ::
  "'id snn \<Rightarrow> (py_error + (string \<times> string) list) option" where
  "candidate_pairs self =
     (let rep_val_list = make_rep_val_list (self_SORTED_FIRST_VAL self)
                           (self_alice_rep_vals self) (self_bob_rep_vals self);
          skip = self_w self * 2 in
      case window rep_val_list skip of
        Inl e \<Rightarrow> Some (Inl e)
      | Inr windows \<Rightarrow>
          window_loop rep_val_list (self_alice_rep_vals self) (self_bob_rep_vals self)
            (self_w self) windows [])"

text \<open>
  The second loop of \<^verbatim>\<open>generate_blocks\<close>: each pair is resolved through the
  representative indexes and the party indexes and stored under \<open>cand_blk_key\<close>.
  Subscripting an index that is \<^verbatim>\<open>None\<close> raises TypeError.
\<close>

fun assemble ::
  "(string, string) dict \<Rightarrow> (string, string) dict \<Rightarrow> 'id block_index option \<Rightarrow>
   'id block_index option \<Rightarrow> (string \<times> string) list \<Rightarrow>
   nat \<times> (nat, 'id list \<times> 'id list) dict \<Rightarrow>
   py_error + (nat, 'id list \<times> 'id list) dict" where
  "assemble alice_rep_index bob_rep_index index_alice index_bob [] (cand_blk_key, block_dict) =
     Inr block_dict"
| "assemble alice_rep_index bob_rep_index index_alice index_bob ((alice_rep, bob_rep) # rest)
     (cand_blk_key, block_dict) =
     (case dict_get alice_rep_index alice_rep of
        None \<Rightarrow> Inl KeyError
      | Some alice_block \<Rightarrow>
          (case index_alice of
             None \<Rightarrow> Inl TypeError
           | Some ia \<Rightarrow>
               (case dict_get ia alice_block of
                  None \<Rightarrow> Inl KeyError
                | Some alice_rec_ids \<Rightarrow>
                    (case dict_get bob_rep_index bob_rep of
                       None \<Rightarrow> Inl KeyError
                     | Some bob_block \<Rightarrow>
                         (case index_bob of
                            None \<Rightarrow> Inl TypeError
                          | Some ib \<Rightarrow>
                              (case dict_get ib bob_block of
                                 None \<Rightarrow> Inl KeyError
                               | Some bob_rec_ids \<Rightarrow>
                                   assemble alice_rep_index bob_rep_index index_alice
                                     index_bob rest
                                     (cand_blk_key + 1,
                                      dict_set block_dict cand_blk_key
                                        (alice_rec_ids, bob_rec_ids))))))))"

text \<open>An attribute read: \<open>Unbound\<close> raises, \<^verbatim>\<open>None\<close> and a value are handed on.\<close>

definition read_attr :: "'a attr \<Rightarrow> py_error + 'a option" where
  "read_attr a = (case a of Unbound \<Rightarrow> Inl AttributeError | IsNone \<Rightarrow> Inr None
                  | Val v \<Rightarrow> Inr (Some v))"

text \<open>
  \<^verbatim>\<open>generate_blocks\<close> of the sorted-neighbourhood class: the number of candidate blocks
  and the instance with \<open>block_dict\<close> bound (the elapsed time is left out).
\<close>

definition generate_blocks :: "'id snn \<Rightarrow> (py_error + (nat \<times> 'id snn)) option" where
  "generate_blocks self =
     (case read_attr (self_index_alice self) of
        Inl e \<Rightarrow> Some (Inl e)
      | Inr index_alice \<Rightarrow>
          (case read_attr (self_index_bob self) of
             Inl e \<Rightarrow> Some (Inl e)
           | Inr index_bob \<Rightarrow>
               (case candidate_pairs self of
                  None \<Rightarrow> None
                | Some (Inl e) \<Rightarrow> Some (Inl e)
                | Some (Inr cand_ref_list) \<Rightarrow>
                    (case assemble (self_alice_rep_index self) (self_bob_rep_index self)
                            index_alice index_bob cand_ref_list (0, []) of
                       Inl e \<Rightarrow> Some (Inl e)
                     | Inr block_dict \<Rightarrow>
                         Some (Inr (length block_dict,
                                    self\<lparr> self_block_dict := Val block_dict \<rparr>))))))"

section \<open>Probability-signature Bloom-filter blocking\<close>

text \<open>
  The instance of \<^verbatim>\<open>PPRLIndexPSignature\<close>; the field \<open>pself_x\<close> is the
  attribute \<^verbatim>\<open>self.x\<close>. The constants of the absent \<^verbatim>\<open>config\<close> module
  (\<^verbatim>\<open>QGRAM_LEN\<close>, \<^verbatim>\<open>QGRAM_PADDING\<close>, the two padding strings) and the two
  digests of \<^verbatim>\<open>hashlib\<close>, read as integers, are carried as fields: \<open>pself_sha1\<close>
  is \<^verbatim>\<open>int(hashlib.sha1(s.encode('utf-8')).hexdigest(), 16)\<close>, \<open>pself_md5\<close>
  likewise. The last five attributes are not bound by \<^verbatim>\<open>__init__\<close>.
\<close>

type_synonym 'id ngram_dict = "(string, 'id list) dict"

record 'id psig =
  pself_num_hash_funct :: int
  pself_bf_len :: int
  pself_bf_cache :: "string \<rightharpoonup> int set"
  pself_alice_bf :: "int set option"
  pself_bob_bf :: "int set option"
  pself_common_bf :: "int set option"
  pself_ngram_alice_dict :: "'id ngram_dict"
  pself_ngram_bob_dict :: "'id ngram_dict"
  pself_QGRAM_LEN :: int
  pself_QGRAM_PADDING :: bool
  pself_PADDING_START_CHAR :: string
  pself_PADDING_END_CHAR :: string
  pself_sha1 :: "string \<Rightarrow> int"
  pself_md5 :: "string \<Rightarrow> int"
  pself_rec_dict_alice :: "'id rec_dict attr"
  pself_rec_dict_bob :: "'id rec_dict attr"
  pself_index_alice :: "'id ngram_dict attr"
  pself_index_bob :: "'id ngram_dict attr"
  pself_block_dict :: "(nat, 'id list \<times> 'id list) dict attr"

subsection \<open>Bloom filters\<close>

text \<open>
  \<^verbatim>\<open>for i in range(num_hash_funct): gi = int1 + i*int2; gi = int(gi % self.bf_len);
  bloom_set.add(gi)\<close>. Python's \<^verbatim>\<open>%\<close> takes the sign of the divisor, as \<open>mod\<close>
  on \<open>int\<close> does, and raises on a zero divisor.
\<close>

fun bloom_loop :: "int \<Rightarrow> int \<Rightarrow> int \<Rightarrow> nat list \<Rightarrow> int set \<Rightarrow> py_error + int set" where
  "bloom_loop int1 int2 bf_len [] bloom_set = Inr bloom_set"
| "bloom_loop int1 int2 bf_len (i # rest) bloom_set =
     (if bf_len = 0 then Inl ZeroDivisionError
      else bloom_loop int1 int2 bf_len rest
             (insert ((int1 + int i * int2) mod bf_len) bloom_set))"

definition ngram2bf :: "'id psig \<Rightarrow> string \<Rightarrow> py_error + int set" where
  "ngram2bf self ngram =
     bloom_loop (pself_sha1 self ngram) (pself_md5 self ngram) (pself_bf_len self)
       [0..<nat (pself_num_hash_funct self)] {}"

text \<open>
  A slice \<^verbatim>\<open>xs[lo:hi]\<close>: a negative bound counts from the end, and both bounds are
  clamped to the list.
\<close>

definition py_slice :: "'a list \<Rightarrow> int \<Rightarrow> int \<Rightarrow> 'a list" where
  "py_slice xs lo hi =
     (let n = int (length xs);
          clamp = (\<lambda>v. if v < 0 then max (v + n) 0 else min v n)
      in take (nat (clamp hi - clamp lo)) (drop (nat (clamp lo)) xs))"

text \<open>\<^verbatim>\<open>[ps[i:i+QGRAM_LEN] for i in range(len(ps) - q_minus_1)]\<close>\<close>

definition q_grams :: "int \<Rightarrow> string \<Rightarrow> string list" where
  "q_grams qgram_len ps =
     map (\<lambda>i. py_slice ps (int i) (int i + qgram_len))
       [0..<nat (int (length ps) - (qgram_len - 1))]"

text \<open>The padded string of \<^verbatim>\<open>__str2bf__\<close>.\<close>

definition padded :: "'id psig \<Rightarrow> string \<Rightarrow> string" where
  "padded self s =
     (let q_minus_1 = pself_QGRAM_LEN self - 1 in
      if pself_QGRAM_PADDING self then
        concat (replicate (nat q_minus_1) (pself_PADDING_START_CHAR self)) @ s @
        concat (replicate (nat q_minus_1) (pself_PADDING_END_CHAR self))
      else s)"

definition str2bf_q_gram_list :: "'id psig \<Rightarrow> string \<Rightarrow> string list" where
  "str2bf_q_gram_list self s = q_grams (pself_QGRAM_LEN self) (padded self s)"

fun str2bf_loop :: "'id psig \<Rightarrow> string list \<Rightarrow> int set \<Rightarrow> py_error + int set" where
  "str2bf_loop self [] bloom_set = Inr bloom_set"
| "str2bf_loop self (q # rest) bloom_set =
     (case bloom_loop (pself_sha1 self q) (pself_md5 self q) (pself_bf_len self)
             [0..<nat (pself_num_hash_funct self)] bloom_set of
        Inl e \<Rightarrow> Inl e
      | Inr bloom_set' \<Rightarrow> str2bf_loop self rest bloom_set')"

text \<open>\<^verbatim>\<open>__str2bf__\<close>: a cached filter is returned as it is.\<close>

definition str2bf :: "'id psig \<Rightarrow> string \<Rightarrow> bool \<Rightarrow> py_error + (int set \<times> 'id psig)" where
  "str2bf self s do_cache =
     (case pself_bf_cache self s of
        Some cached \<Rightarrow> Inr (cached, self)
      | None \<Rightarrow>
          (case str2bf_loop self (str2bf_q_gram_list self s) {} of
             Inl e \<Rightarrow> Inl e
           | Inr bloom_set \<Rightarrow>
               Inr (bloom_set,
                    if do_cache
                    then self\<lparr> pself_bf_cache := (pself_bf_cache self)(s \<mapsto> bloom_set) \<rparr>
                    else self)))"

text \<open>
  \<^verbatim>\<open>create_bloom_filter\<close>: the union over the n-gram set, which is held as a list
  without repetitions.
\<close>

fun create_bloom_filter_loop :: "'id psig \<Rightarrow> string list \<Rightarrow> int set \<Rightarrow> py_error + int set" where
  "create_bloom_filter_loop self [] bloom = Inr bloom"
| "create_bloom_filter_loop self (gram # rest) bloom =
     (case ngram2bf self gram of
        Inl e \<Rightarrow> Inl e
      | Inr bloom_set \<Rightarrow> create_bloom_filter_loop self rest (bloom \<union> bloom_set))"

definition create_bloom_filter :: "'id psig \<Rightarrow> string list \<Rightarrow> py_error + int set" where
  "create_bloom_filter self ngrams = create_bloom_filter_loop self ngrams {}"

subsection \<open>N-grams of the records\<close>

text \<open>\<^verbatim>\<open>value = [rec[x] for x in attr_list]\<close>\<close>

fun select_attrs :: "string list \<Rightarrow> int list \<Rightarrow> py_error + string list" where
  "select_attrs rec [] = Inr []"
| "select_attrs rec (x # xs) =
     (case py_index rec x of
        Inl e \<Rightarrow> Inl e
      | Inr v \<Rightarrow> (case select_attrs rec xs of Inl e \<Rightarrow> Inl e | Inr vs \<Rightarrow> Inr (v # vs)))"

text \<open>The inner loop of \<^verbatim>\<open>get_ngram\<close> over the n-grams of one record.\<close>

definition add_gram ::
  "'id \<Rightarrow> string list \<times> 'id ngram_dict \<Rightarrow> string \<Rightarrow> string list \<times> 'id ngram_dict" where
  "add_gram key st gram =
     (case st of (ngrams, ngram_dict) \<Rightarrow>
        (if gram \<in> set ngrams then ngrams else ngrams @ [gram],
         case dict_get ngram_dict gram of
           Some ids \<Rightarrow> dict_set ngram_dict gram (ids @ [key])
         | None \<Rightarrow> dict_set ngram_dict gram [key]))"

text \<open>
  \<^verbatim>\<open>get_ngram\<close>: the n-grams are cut from the joined attribute values as they
  are; the state is \<open>(ngrams, ngram_dict)\<close>.
\<close>

fun get_ngram_loop ::
  "int \<Rightarrow> 'id rec_dict \<Rightarrow> int list \<Rightarrow> string list \<times> 'id ngram_dict \<Rightarrow>
   py_error + (string list \<times> 'id ngram_dict)" where
  "get_ngram_loop qgram_len [] attr_list st = Inr st"
| "get_ngram_loop qgram_len ((key, rec) # rest) attr_list st =
     (case select_attrs rec attr_list of
        Inl e \<Rightarrow> Inl e
      | Inr val \<Rightarrow>
          get_ngram_loop qgram_len rest attr_list
            (foldl (add_gram key) st (q_grams qgram_len (concat val))))"

definition get_ngram ::
  "'id psig \<Rightarrow> 'id rec_dict \<Rightarrow> 'id ngram_dict \<Rightarrow> int list \<Rightarrow>
   py_error + (string list \<times> 'id ngram_dict)" where
  "get_ngram self records ngram_dict attr_list =
     get_ngram_loop (pself_QGRAM_LEN self) records attr_list ([], ngram_dict)"

text \<open>
  \<^verbatim>\<open>alice_bloom_filter\<close>, \<^verbatim>\<open>bob_bloom_filter\<close>: \<^verbatim>\<open>.items()\<close> on a record
  table that is unbound or \<^verbatim>\<open>None\<close> raises AttributeError.
\<close>

definition alice_bloom_filter :: "'id psig \<Rightarrow> int list \<Rightarrow> py_error + (int set \<times> 'id psig)" where
  "alice_bloom_filter self attr_list =
     (case pself_rec_dict_alice self of
        Val records \<Rightarrow>
          (case get_ngram self records (pself_ngram_alice_dict self) attr_list of
             Inl e \<Rightarrow> Inl e
           | Inr (ngrams, ngram_dict) \<Rightarrow>
               (case create_bloom_filter self ngrams of
                  Inl e \<Rightarrow> Inl e
                | Inr bf \<Rightarrow>
                    Inr (bf, self\<lparr> pself_alice_bf := Some bf,
                                     pself_ngram_alice_dict := ngram_dict \<rparr>)))
      | _ \<Rightarrow> Inl AttributeError)"

definition bob_bloom_filter :: "'id psig \<Rightarrow> int list \<Rightarrow> py_error + (int set \<times> 'id psig)" where
  "bob_bloom_filter self attr_list =
     (case pself_rec_dict_bob self of
        Val records \<Rightarrow>
          (case get_ngram self records (pself_ngram_bob_dict self) attr_list of
             Inl e \<Rightarrow> Inl e
           | Inr (ngrams, ngram_dict) \<Rightarrow>
               (case create_bloom_filter self ngrams of
                  Inl e \<Rightarrow> Inl e
                | Inr bf \<Rightarrow>
                    Inr (bf, self\<lparr> pself_bob_bf := Some bf,
                                     pself_ngram_bob_dict := ngram_dict \<rparr>)))
      | _ \<Rightarrow> Inl AttributeError)"

text \<open>\<^verbatim>\<open>common_bloom_filter\<close>: the intersection of the two aggregate filters.\<close>

definition common_bloom_filter :: "'id psig \<Rightarrow> int list \<Rightarrow> py_error + (int set \<times> 'id psig)" where
  "common_bloom_filter self attr_list =
     (case (if pself_alice_bf self = None \<or> pself_bob_bf self = None then
              (case alice_bloom_filter self attr_list of
                 Inl e \<Rightarrow> Inl e
               | Inr (bf, self1) \<Rightarrow>
                   (case bob_bloom_filter self1 attr_list of
                      Inl e \<Rightarrow> Inl e
                    | Inr (bf', self2) \<Rightarrow> Inr self2))
            else Inr self) of
        Inl e \<Rightarrow> Inl e
      | Inr self' \<Rightarrow>
          (case (pself_alice_bf self', pself_bob_bf self') of
             (Some alice_bf, Some bob_bf) \<Rightarrow>
               (let common_bf = alice_bf \<inter> bob_bf in
                Inr (common_bf, self'\<lparr> pself_common_bf := Some common_bf \<rparr>))
           | _ \<Rightarrow> Inl AttributeError))"

subsection \<open>Micro blocks and the candidate table\<close>

text \<open>
  \<^verbatim>\<open>microblocks\<close>: an entry is copied when \<^verbatim>\<open>bf.intersection(common_bf) == bf\<close>.
\<close>

fun microblocks_loop ::
  "'id psig \<Rightarrow> int set \<Rightarrow> 'id ngram_dict \<Rightarrow> 'id ngram_dict \<Rightarrow> py_error + 'id ngram_dict" where
  "microblocks_loop self common_bf [] revert_index = Inr revert_index"
| "microblocks_loop self common_bf ((ngram, val) # rest) revert_index =
     (case ngram2bf self ngram of
        Inl e \<Rightarrow> Inl e
      | Inr bf \<Rightarrow>
          microblocks_loop self common_bf rest
            (if bf \<inter> common_bf = bf then dict_set revert_index ngram val else revert_index))"

definition microblocks :: "'id psig \<Rightarrow> int set \<Rightarrow> 'id ngram_dict \<Rightarrow> py_error + 'id ngram_dict" where
  "microblocks self common_bf ngram_dict = microblocks_loop self common_bf ngram_dict []"

text \<open>
  \<^verbatim>\<open>generate_blocks\<close> of the p-sig class. Reading an unbound index raises
  AttributeError, and so does \<^verbatim>\<open>.items()\<close> or \<^verbatim>\<open>.get\<close> on \<^verbatim>\<open>None\<close>.
\<close>

fun psig_join ::
  "'id ngram_dict \<Rightarrow> 'id ngram_dict option \<Rightarrow> nat \<times> (nat, 'id list \<times> 'id list) dict \<Rightarrow>
   py_error + (nat, 'id list \<times> 'id list) dict" where
  "psig_join [] index_bob (cand_blk_key, block_dict) = Inr block_dict"
| "psig_join ((block_id, block_vals) # rest) index_bob (cand_blk_key, block_dict) =
     (case index_bob of
        None \<Rightarrow> Inl AttributeError
      | Some ib \<Rightarrow>
          (case dict_get ib block_id of
             Some bob_block_vals \<Rightarrow>
               psig_join rest index_bob
                 (cand_blk_key + 1, dict_set block_dict cand_blk_key (block_vals, bob_block_vals))
           | None \<Rightarrow> psig_join rest index_bob (cand_blk_key, block_dict)))"

definition psig_generate_blocks :: "'id psig \<Rightarrow> py_error + (nat \<times> 'id psig)" where
  "psig_generate_blocks self =
     (case read_attr (pself_index_alice self) of
        Inl e \<Rightarrow> Inl e
      | Inr index_alice \<Rightarrow>
          (case read_attr (pself_index_bob self) of
             Inl e \<Rightarrow> Inl e
           | Inr index_bob \<Rightarrow>
               (case index_alice of
                  None \<Rightarrow> Inl AttributeError
                | Some ia \<Rightarrow>
                    (case psig_join ia index_bob (0, []) of
                       Inl e \<Rightarrow> Inl e
                     | Inr block_dict \<Rightarrow>
                         Inr (length block_dict,
                              self\<lparr> pself_block_dict := Val block_dict \<rparr>)))))"

section \<open>Notions used to state what the sweep returns\<close>





text \<open>
  What the sweep reads at position \<open>p\<close>: the list stored under the reference value of
  that position.
\<close>

definition ids_at :: "(nat \<rightharpoonup> string) \<Rightarrow> (string \<rightharpoonup> 'id list) \<Rightarrow> nat \<Rightarrow> 'id list" where
  "ids_at ref_ind_dict ref_val_dict p =
     (case ref_ind_dict p of
        None \<Rightarrow> []
      | Some ref_val \<Rightarrow> (case ref_val_dict ref_val of None \<Rightarrow> [] | Some ids \<Rightarrow> ids))"

definition ids_of_range ::
  "(nat \<rightharpoonup> string) \<Rightarrow> (string \<rightharpoonup> 'id list) \<Rightarrow> nat \<Rightarrow> nat \<Rightarrow> 'id list" where
  "ids_of_range ref_ind_dict ref_val_dict a b =
     concat (map (ids_at ref_ind_dict ref_val_dict) [a..<b])"



section \<open>Instances used to run the model\<close>

text \<open>
  \<^verbatim>\<open>__init__\<close> of the sorted-neighbourhood class (\<^verbatim>\<open>overlap\<close> is not stored by
  the source); the last argument is the value of \<^verbatim>\<open>SORTED_FIRST_VAL\<close>.
\<close>

definition init_snn ::
  "int \<Rightarrow> int \<Rightarrow> (string \<Rightarrow> string \<Rightarrow> real) \<Rightarrow> real \<Rightarrow> mode \<Rightarrow> string \<Rightarrow> 'id snn" where
  "init_snn k w sim_measure min_sim_threshold sim_or_size first_val =
     \<lparr> self_k = k, self_w = w, self_sim_measure = sim_measure,
       self_min_sim_threshold = min_sim_threshold, self_sim_or_size = sim_or_size,
       self_ref_val_list_alice = None, self_ref_val_list_bob = None,
       self_ref_ind_dict_alice = None, self_ref_ind_dict_bob = None,
       self_alice_rep_vals = [], self_bob_rep_vals = [],
       self_alice_rep_index = [], self_bob_rep_index = [],
       self_SORTED_FIRST_VAL = first_val,
       self_rec_dict_alice = Unbound, self_rec_dict_bob = Unbound,
       self_sort_ref_val_list_alice = Unbound, self_sort_ref_val_list_bob = Unbound,
       self_attr_select_list_alice = Unbound, self_attr_select_list_bob = Unbound,
       self_index_alice = Unbound, self_index_bob = Unbound, self_block_dict = Unbound \<rparr>"

text \<open>The similarity of the spec's first scenario: 1 for equal strings, 0 otherwise.\<close>

definition exact_sim :: "string \<Rightarrow> string \<Rightarrow> real" where
  "exact_sim a b = (if a = b then 1 else 0)"

definition ex_recs :: "nat rec_dict" where
  "ex_recs = [(1, [''a'']), (2, [''a'']), (3, [''a'']), (4, [''c''])]"

definition ex_snn :: "nat snn" where
  "ex_snn = init_snn 2 1 exact_sim 1 SIM ''''"

text \<open>
  \<^verbatim>\<open>__init__\<close> of the p-sig class, with the configuration constants and the two
  digests as further arguments.
\<close>

definition init_psig ::
  "int \<Rightarrow> int \<Rightarrow> int \<Rightarrow> bool \<Rightarrow> string \<Rightarrow> string \<Rightarrow> (string \<Rightarrow> int) \<Rightarrow> (string \<Rightarrow> int) \<Rightarrow>
   'id psig" where
  "init_psig num_hash_funct bf_len qgram_len qgram_padding start_char end_char sha1 md5 =
     \<lparr> pself_num_hash_funct = num_hash_funct, pself_bf_len = bf_len,
       pself_bf_cache = Map.empty, pself_alice_bf = None, pself_bob_bf = None,
       pself_common_bf = None, pself_ngram_alice_dict = [], pself_ngram_bob_dict = [],
       pself_QGRAM_LEN = qgram_len, pself_QGRAM_PADDING = qgram_padding,
       pself_PADDING_START_CHAR = start_char, pself_PADDING_END_CHAR = end_char,
       pself_sha1 = sha1, pself_md5 = md5,
       pself_rec_dict_alice = Unbound, pself_rec_dict_bob = Unbound,
       pself_index_alice = Unbound, pself_index_bob = Unbound,
       pself_block_dict = Unbound \<rparr>"

text \<open>
  Two small stand-ins for the digests, so that filters can be computed by hand: the sum
  of the character codes and the length. Bigrams, padding on with \<open>^\<close> and \<open>$\<close>, two
  hash functions, ten bits.
\<close>

definition ex_sha1 :: "string \<Rightarrow> int" where
  "ex_sha1 s = sum_list (map of_char s)"

definition ex_md5 :: "string \<Rightarrow> int" where
  "ex_md5 s = int (length s)"

definition ex_psig :: "nat psig" where
  "ex_psig = init_psig 2 10 2 True ''^'' ''$'' ex_sha1 ex_md5"

text \<open>
  An instance after both record tables and reference lists have been set (what the
  loader of the base class and the caller do), and a statistics function that reports
  nothing.
\<close>

definition ex_loaded :: "nat snn" where
  "ex_loaded = ex_snn\<lparr> self_ref_val_list_alice := Some [''d'', ''b''],
                         self_ref_val_list_bob := Some [''c'', ''a''],
                         self_rec_dict_alice := Val ex_recs,
                         self_rec_dict_bob := Val [(5, ['''']), (6, ['''']), (7, [''b''])] \<rparr>"

text \<open>The same instance with \<open>k = 0\<close>: every position becomes a bucket of its own.\<close>

definition ex_loaded0 :: "nat snn" where
  "ex_loaded0 = ex_loaded\<lparr> self_k := 0 \<rparr>"

definition no_stats :: "nat block_index \<Rightarrow> py_error + unit" where
  "no_stats index = Inr ()"

section \<open>Properties\<close>

subsection \<open>Dictionaries\<close>

lemma dict_get_mem: "dict_get d key = Some v \<Longrightarrow> (key, v) \<in> set d"
  by (induction d) (auto split: if_splits)

lemma set_dict_set: "set (dict_set d key v) \<subseteq> insert (key, v) (set d)"
  by (induction d) (auto split: if_splits)

lemma set_dict_del: "set (dict_del d key) \<subseteq> set d"
  by (induction d) (auto split: if_splits)

lemma dict_set_fresh: "key \<notin> fst ` set d \<Longrightarrow> dict_set d key v = d @ [(key, v)]"
  by (induction d) auto

subsection \<open>Block keys as strings\<close>
















subsection \<open>Positions and buckets\<close>












subsection \<open>Blocks that cover a range of positions\<close>






lemma ids_of_range_empty [simp]: "ids_of_range rid rvd a a = []"
  by (simp add: ids_of_range_def)



subsection \<open>The inner loop\<close>


subsection \<open>Keys of blocks\<close>









subsection \<open>One round of the sweep\<close>




subsection \<open>The whole sweep\<close>




subsection \<open>What the reference dictionary holds after the records went in\<close>











subsection \<open>What \<^verbatim>\<open>__generate_sorted_index__\<close> returns in SIM mode\<close>



subsection \<open>The buckets of a SIM index\<close>





subsection \<open>Records past the last reference value\<close>




subsection \<open>SIZE mode\<close>

lemma size_mode_returns_empty_index:
  assumes "self_sim_or_size self = SIZE"
    and "generate_sorted_index self rec_dict attr_select_list sort_ref_val_list ref_ind_dict
           = Some (Inr index)"
  shows "index = []"
  using assms by (auto simp: generate_sorted_index_def split: sum.splits)

text \<open>
  C4. The claim is that SIZE mode grows groups by record count and returns a non-empty
  index for a non-empty record table. The source has a branch for SIM only: in SIZE mode
  the four records of the example (which give the bucket \<open>b_0_1_\<close> in SIM mode) give the
  empty index.
\<close>

theorem size_mode_example_index_is_empty:
  "generate_sorted_index (ex_snn\<lparr>self_sim_or_size := SIZE\<rparr>) ex_recs [0] [''b'', ''d'']
     [0 \<mapsto> '''', 1 \<mapsto> ''b'', 2 \<mapsto> ''d''] = Some (Inr [])"
  by code_simp

subsection \<open>The Bloom filter of an n-gram\<close>

lemma bloom_loop_eq:
  "bf_len \<noteq> 0 \<Longrightarrow> bloom_loop int1 int2 bf_len js acc =
     Inr (acc \<union> (\<lambda>i. (int1 + int i * int2) mod bf_len) ` set js)"
  by (induction js arbitrary: acc) auto

lemma ngram2bf_eq:
  "pself_bf_len self \<noteq> 0 \<Longrightarrow> ngram2bf self s =
     Inr ((\<lambda>i. (pself_sha1 self s + int i * pself_md5 self s) mod pself_bf_len self)
           ` {0..<nat (pself_num_hash_funct self)})"
  by (simp add: ngram2bf_def bloom_loop_eq)

lemma ex_psig_ab: "ngram2bf ex_psig ''ab'' = Inr {5, 7}"
  by code_simp

text \<open>
  C7. For a positive \<open>bf_len\<close>, \<^verbatim>\<open>ngram2bf\<close> returns a set of bit positions inside
  \<open>[0, bf_len)\<close> with at most \<open>num_hash_funct\<close> elements, and the set depends on the
  string, \<open>bf_len\<close>, \<open>num_hash_funct\<close> and the two digests only: any two instances that
  agree on these (whatever their caches, dictionaries and filters hold) return the same
  set, and the call changes no attribute.
\<close>

theorem ngram2bf_range_size_deterministic:
  assumes "0 < pself_bf_len self"
    and "pself_bf_len self' = pself_bf_len self"
    and "pself_num_hash_funct self' = pself_num_hash_funct self"
    and "pself_sha1 self' = pself_sha1 self" and "pself_md5 self' = pself_md5 self"
  shows "\<exists>bf. ngram2bf self s = Inr bf \<and> ngram2bf self' s = Inr bf
           \<and> bf \<subseteq> {0..<pself_bf_len self} \<and> finite bf
           \<and> card bf \<le> nat (pself_num_hash_funct self)"
proof -
  let ?bf = "(\<lambda>i. (pself_sha1 self s + int i * pself_md5 self s) mod pself_bf_len self)
           ` {0..<nat (pself_num_hash_funct self)}"
  have 1: "ngram2bf self s = Inr ?bf" using assms(1) by (simp add: ngram2bf_eq)
  have 2: "ngram2bf self' s = Inr ?bf" using assms by (simp add: ngram2bf_eq)
  have 3: "?bf \<subseteq> {0..<pself_bf_len self}" using assms(1) by auto
  have 4: "finite ?bf" by simp
  have "card ?bf \<le> card {0..<nat (pself_num_hash_funct self)}" by (rule card_image_le) simp
  then have 5: "card ?bf \<le> nat (pself_num_hash_funct self)" by simp
  from 1 2 3 4 5 show ?thesis by blast
qed

theorem ngram2bf_range_size_deterministic_witness:
  "ngram2bf ex_psig ''ab'' = Inr {5, 7}
   \<and> ngram2bf (ex_psig\<lparr>pself_bf_cache := [''ab'' \<mapsto> {1}]\<rparr>) ''ab'' = Inr {5, 7}
   \<and> {5, 7} \<subseteq> {0..<pself_bf_len ex_psig} \<and> card {5, 7 :: int} \<le> nat (pself_num_hash_funct ex_psig)"
proof -
  have pos: "0 < pself_bf_len ex_psig" by (simp add: ex_psig_def init_psig_def)
  from ngram2bf_range_size_deterministic[OF pos,
      of "ex_psig\<lparr>pself_bf_cache := [''ab'' \<mapsto> {1}]\<rparr>" "''ab''"]
  show ?thesis using ex_psig_ab by auto
qed

subsection \<open>Micro blocks\<close>

lemma microblocks_loop_filter:
  assumes "distinct (map fst rest)" and "fst ` set acc \<inter> fst ` set rest = {}"
    and "microblocks_loop self common_bf rest acc = Inr r"
  shows "r = acc @ filter (\<lambda>(ngram, val). \<exists>bf. ngram2bf self ngram = Inr bf \<and> bf \<subseteq> common_bf) rest"
  using assms
proof (induction rest arbitrary: acc)
  case Nil
  then show ?case by simp
next
  case (Cons a rest)
  obtain g v where a: "a = (g, v)" by (cases a)
  from Cons.prems(3) a obtain bf where bf: "ngram2bf self g = Inr bf"
    by (auto split: sum.splits)
  have fresh: "g \<notin> fst ` set acc" using Cons.prems(2) a by auto
  have d: "distinct (map fst rest)" and g: "g \<notin> fst ` set rest" using Cons.prems(1) a by auto
  show ?case
  proof (cases "bf \<subseteq> common_bf")
    case True
    then have "bf \<inter> common_bf = bf" by auto
    with Cons.prems(3) a bf fresh
    have loop: "microblocks_loop self common_bf rest (acc @ [(g, v)]) = Inr r"
      by (simp add: dict_set_fresh)
    have "fst ` set (acc @ [(g, v)]) \<inter> fst ` set rest = {}"
      using Cons.prems(2) g a by auto
    from Cons.IH[OF d this loop] show ?thesis using a bf True by simp
  next
    case False
    then have "bf \<inter> common_bf \<noteq> bf" by auto
    with Cons.prems(3) a bf
    have loop: "microblocks_loop self common_bf rest acc = Inr r" by simp
    have "fst ` set acc \<inter> fst ` set rest = {}" using Cons.prems(2) by auto
    from Cons.IH[OF d this loop] show ?thesis using a bf False by simp
  qed
qed

text \<open>
  C2. For every n-gram dictionary and every common signature (so also for the
  intersection that \<^verbatim>\<open>common_bloom_filter\<close> computes), \<^verbatim>\<open>microblocks\<close> keeps
  an entry if and only if the n-gram's own filter \<^verbatim>\<open>ngram2bf(ngram)\<close> is a subset
  of the common signature: the result is the input filtered by that test, in the input's
  order. An entry whose filter only overlaps the signature is dropped.
\<close>

theorem microblocks_keeps_contained_filters_only:
  assumes "distinct (map fst ngram_dict)"
    and "microblocks self common_bf ngram_dict = Inr revert_index"
  shows "revert_index =
           filter (\<lambda>(ngram, val). \<exists>bf. ngram2bf self ngram = Inr bf \<and> bf \<subseteq> common_bf) ngram_dict
         \<and> (\<forall>ngram val. (ngram, val) \<in> set revert_index \<longleftrightarrow>
               (ngram, val) \<in> set ngram_dict \<and>
               (\<exists>bf. ngram2bf self ngram = Inr bf \<and> bf \<subseteq> common_bf))"
proof -
  have "revert_index = [] @
      filter (\<lambda>(ngram, val). \<exists>bf. ngram2bf self ngram = Inr bf \<and> bf \<subseteq> common_bf) ngram_dict"
    by (rule microblocks_loop_filter[OF assms(1)]) (use assms(2) in \<open>simp_all add: microblocks_def\<close>)
  then show ?thesis by auto
qed

lemma ex_micro: "microblocks ex_psig {5, 7, 9} [(''ab'', [1]), (''cd'', [2])] = Inr [(''ab'', [1])]"
  by code_simp

lemma ex_cd: "ngram2bf ex_psig ''cd'' = Inr {1, 9}"
  by code_simp

theorem microblocks_keeps_contained_filters_only_witness:
  "microblocks ex_psig {5, 7, 9} [(''ab'', [1]), (''cd'', [2])] = Inr [(''ab'', [1 :: nat])]
   \<and> ngram2bf ex_psig ''cd'' = Inr {1, 9} \<and> {1, 9} \<inter> {5, 7, 9 :: int} \<noteq> {}
   \<and> (''cd'', [2]) \<notin> set [(''ab'', [1 :: nat])]
   \<and> [(''ab'', [1 :: nat])] =
       filter (\<lambda>(ngram, val). \<exists>bf. ngram2bf ex_psig ngram = Inr bf \<and> bf \<subseteq> {5, 7, 9})
         [(''ab'', [1]), (''cd'', [2])]"
proof -
  have d: "distinct (map fst [(''ab'', [1 :: nat]), (''cd'', [2])])" by simp
  have f: "[(''ab'', [1 :: nat])] =
       filter (\<lambda>(ngram, val). \<exists>bf. ngram2bf ex_psig ngram = Inr bf \<and> bf \<subseteq> {5, 7, 9})
         [(''ab'', [1]), (''cd'', [2])]"
    by (rule microblocks_keeps_contained_filters_only[OF d ex_micro, THEN conjunct1])
  have o: "{1, 9} \<inter> {5, 7, 9 :: int} \<noteq> {}" by simp
  have n: "(''cd'', [2]) \<notin> set [(''ab'', [1 :: nat])]" by simp
  from ex_micro ex_cd o n f show ?thesis by blast
qed


subsection \<open>N-gram extraction and padding\<close>

lemma get_ngram_ignores_padding:
  "get_ngram (self\<lparr>pself_QGRAM_PADDING := b\<rparr>) records ngram_dict attr_list =
   get_ngram self records ngram_dict attr_list"
  by (simp add: get_ngram_def)

lemma ex_alice_bloom_filter:
  "map_sum id fst (alice_bloom_filter
      (ex_psig\<lparr>pself_rec_dict_alice := Val [(1, [''ab''])]\<rparr>) [0]) = Inr {5, 7}"
  by code_simp

lemma ex_get_ngram:
  "pself_QGRAM_PADDING ex_psig
   \<and> get_ngram ex_psig [(1, [''ab''])] [] [0] = Inr ([''ab''], [(''ab'', [1 :: nat])])
   \<and> str2bf_q_gram_list ex_psig ''ab'' = [''^a'', ''ab'', ''b$'']"
  by code_simp

text \<open>
  C5. The claim is that the n-gram extraction of the p-sig pipeline pads the string when
  \<^verbatim>\<open>QGRAM_PADDING\<close> is enabled, in particular in \<^verbatim>\<open>get_ngram\<close>. Only
  \<^verbatim>\<open>__str2bf__\<close> pads; \<^verbatim>\<open>get_ngram\<close> never reads the flag. With padding
  enabled, bigrams and the record \<open>ab\<close>: \<^verbatim>\<open>get_ngram\<close> yields the single n-gram
  \<open>ab\<close>, the q-gram list of \<^verbatim>\<open>__str2bf__\<close> is \<open>^a, ab, b$\<close>, and Alice's aggregate
  filter is the filter of \<open>ab\<close> alone.
\<close>

theorem get_ngram_example_has_no_padding:
  "pself_QGRAM_PADDING ex_psig
   \<and> get_ngram ex_psig [(1, [''ab''])] [] [0] = Inr ([''ab''], [(''ab'', [1 :: nat])])
   \<and> str2bf_q_gram_list ex_psig ''ab'' = [''^a'', ''ab'', ''b$'']
   \<and> map_sum id fst (alice_bloom_filter
         (ex_psig\<lparr>pself_rec_dict_alice := Val [(1, [''ab''])]\<rparr>) [0]) = Inr {5, 7}"
  using ex_get_ngram ex_alice_bloom_filter by blast

subsection \<open>Building an index twice\<close>

lemma ex_build:
  "(case build_index_alice no_stats [0] ex_loaded of
      Some (Inr (stat, self1)) \<Rightarrow>
        self_index_alice self1 = Val [(''b_0_1_'', [4, 1, 2, 3])]
        \<and> self_alice_rep_vals self1 = ['''', ''b'']
        \<and> self_alice_rep_index self1 = [('''', ''b_0_1_''), (''b'', ''b_0_1_'')]
    | _ \<Rightarrow> False)"
  by code_simp

lemma generate_sorted_index_fields:
  assumes "self_k s' = self_k s" "self_sim_measure s' = self_sim_measure s"
    "self_min_sim_threshold s' = self_min_sim_threshold s"
    "self_sim_or_size s' = self_sim_or_size s" "self_SORTED_FIRST_VAL s' = self_SORTED_FIRST_VAL s"
  shows "generate_sorted_index s' rd al srl rid = generate_sorted_index s rd al srl rid"
  unfolding generate_sorted_index_def assms by (rule refl)

lemma select_loop_positions:
  "select_loop rid keys (acc, ri) = Inr (nums, ri') \<Longrightarrow>
   \<exists>numss. list_all2 (\<lambda>key ns. ref_nums_of_key key = Inr ns) keys numss
            \<and> nums = acc @ concat numss"
proof (induction keys arbitrary: acc ri)
  case Nil
  then show ?case by simp
next
  case (Cons key keys)
  from Cons.prems obtain ns ri1 where ns: "ref_nums_of_key key = Inr ns"
    and rec: "select_loop rid keys (acc @ ns, ri1) = Inr (nums, ri')"
    by (auto split: sum.splits)
  from Cons.IH[OF rec] obtain numss where
    a: "list_all2 (\<lambda>key ns. ref_nums_of_key key = Inr ns) keys numss"
    and b: "nums = (acc @ ns) @ concat numss" by blast
  show ?case
  proof (intro exI[of _ "ns # numss"] conjI)
    show "list_all2 (\<lambda>key ns. ref_nums_of_key key = Inr ns) (key # keys) (ns # numss)"
      using ns a by simp
    show "nums = acc @ concat (ns # numss)" using b by simp
  qed
qed

lemma append_rep_vals_app:
  "append_rep_vals rid nums acc = Inr r \<Longrightarrow>
   \<exists>vs. r = acc @ vs \<and> list_all2 (\<lambda>n v. 0 \<le> n \<and> rid (nat n) = Some v) nums vs
        \<and> (\<forall>acc'. append_rep_vals rid nums acc' = Inr (acc' @ vs))"
proof (induction nums arbitrary: acc)
  case Nil
  then show ?case by simp
next
  case (Cons n nums)
  from Cons.prems obtain v where n: "\<not> n < 0" "rid (nat n) = Some v"
    and rec: "append_rep_vals rid nums (acc @ [v]) = Inr r"
    by (auto split: if_splits option.splits)
  from Cons.IH[OF rec] obtain vs where vs: "r = (acc @ [v]) @ vs"
    "list_all2 (\<lambda>n v. 0 \<le> n \<and> rid (nat n) = Some v) nums vs"
    "\<forall>acc'. append_rep_vals rid nums acc' = Inr (acc' @ vs)" by blast
  show ?case
  proof (intro exI[of _ "v # vs"] conjI allI)
    show "r = acc @ v # vs" using vs(1) by simp
    show "list_all2 (\<lambda>n v. 0 \<le> n \<and> rid (nat n) = Some v) (n # nums) (v # vs)"
      using n vs(2) by simp
    fix acc'
    show "append_rep_vals rid (n # nums) acc' = Inr (acc' @ v # vs)"
      using n vs(3)[rule_format, of "acc' @ [v]"] by simp
  qed
qed

lemma build_index_alice_twice:
  assumes "build_index_alice block_stats attr_select_list self0 = Some (Inr (stat1, self1))"
  shows "\<exists>rvl rd rid index numss vs self2.
             self_ref_val_list_alice self0 = Some rvl \<and> self_rec_dict_alice self0 = Val rd
           \<and> rid = make_ref_ind_dict (self_SORTED_FIRST_VAL self0) (sort rvl)
           \<and> generate_sorted_index self0 rd attr_select_list (sort rvl) rid = Some (Inr index)
           \<and> self_index_alice self1 = Val index
           \<and> list_all2 (\<lambda>key nums. ref_nums_of_key key = Inr nums) (map fst index) numss
           \<and> list_all2 (\<lambda>n v. 0 \<le> n \<and> rid (nat n) = Some v) (concat numss) vs
           \<and> self_alice_rep_vals self1 = self_alice_rep_vals self0 @ vs
           \<and> build_index_alice block_stats attr_select_list self1 = Some (Inr (stat1, self2))
           \<and> self_alice_rep_vals self2 = self_alice_rep_vals self0 @ vs @ vs
           \<and> self_index_alice self2 = self_index_alice self1
           \<and> self_alice_rep_index self2 = self_alice_rep_index self1"
proof -
  let ?a = "self0\<lparr> self_attr_select_list_alice := Val attr_select_list \<rparr>"
  from assms obtain rvl where rvl: "self_ref_val_list_alice self0 = Some rvl"
    by (auto simp: build_index_alice_def sort_ref_values_alice_def Let_def split: option.splits)
  define srl where "srl = sort rvl"
  define rid where "rid = make_ref_ind_dict (self_SORTED_FIRST_VAL self0) srl"
  define s2 where "s2 = ?a\<lparr> self_ref_ind_dict_alice := Some rid,
                             self_sort_ref_val_list_alice := Val srl \<rparr>"
  have so: "sort_ref_values_alice ?a = Inr s2"
    by (simp add: sort_ref_values_alice_def rvl Let_def s2_def srl_def rid_def)
  from assms so obtain rd where rd: "self_rec_dict_alice self0 = Val rd"
    by (cases "self_rec_dict_alice self0")
       (auto simp: build_index_alice_def Let_def s2_def split: sum.splits)
  from assms so rd obtain index where
    gi: "generate_sorted_index s2 rd attr_select_list srl rid = Some (Inr index)"
    by (auto simp: build_index_alice_def Let_def s2_def split: sum.splits option.splits)
  from assms so rd gi obtain nums ri where sel: "select_rep_ref_vals index rid = Inr (nums, ri)"
    by (auto simp: build_index_alice_def Let_def s2_def split: sum.splits option.splits)
  from assms so rd gi sel obtain rv where
    ap: "append_rep_vals rid nums (self_alice_rep_vals self0) = Inr rv"
    by (auto simp: build_index_alice_def Let_def s2_def split: sum.splits option.splits)
  from assms so rd gi sel ap have bs: "block_stats index = Inr stat1"
    and s1: "self1 = s2\<lparr> self_index_alice := Val index, self_alice_rep_index := ri,
                        self_alice_rep_vals := rv \<rparr>"
    by (auto simp: build_index_alice_def Let_def s2_def split: sum.splits option.splits)
  from append_rep_vals_app[OF ap] obtain vs where vs: "rv = self_alice_rep_vals self0 @ vs"
    "list_all2 (\<lambda>n v. 0 \<le> n \<and> rid (nat n) = Some v) nums vs"
    "\<forall>acc'. append_rep_vals rid nums acc' = Inr (acc' @ vs)" by blast
  from sel obtain numss where
    numss: "list_all2 (\<lambda>key ns. ref_nums_of_key key = Inr ns) (map fst index) numss"
    and nums: "nums = concat numss"
    unfolding select_rep_ref_vals_def using select_loop_positions by fastforce
  have gi0: "generate_sorted_index self0 rd attr_select_list (sort rvl) rid = Some (Inr index)"
    using gi generate_sorted_index_fields[of s2 self0 rd attr_select_list srl rid]
    by (simp add: s2_def srl_def)
  let ?b = "self1\<lparr> self_attr_select_list_alice := Val attr_select_list \<rparr>"
  define s2' where "s2' = ?b\<lparr> self_ref_ind_dict_alice := Some rid,
                             self_sort_ref_val_list_alice := Val srl \<rparr>"
  have so': "sort_ref_values_alice ?b = Inr s2'"
    by (simp add: sort_ref_values_alice_def rvl Let_def s2'_def srl_def rid_def s1 s2_def)
  have gi': "generate_sorted_index s2' rd attr_select_list srl rid = Some (Inr index)"
    using gi generate_sorted_index_fields[of s2' s2 rd attr_select_list srl rid]
    by (simp add: s2'_def s1 s2_def)
  have rd': "self_rec_dict_alice s2' = Val rd" by (simp add: s2'_def s1 s2_def rd)
  have rv': "self_alice_rep_vals s2' = rv" by (simp add: s2'_def s1 s2_def)
  define self2 where "self2 = s2'\<lparr> self_index_alice := Val index, self_alice_rep_index := ri,
                        self_alice_rep_vals := rv @ vs \<rparr>"
  have ap': "append_rep_vals rid nums rv = Inr (rv @ vs)" using vs(3) by simp
  have c9: "build_index_alice block_stats attr_select_list self1 = Some (Inr (stat1, self2))"
    unfolding build_index_alice_def Let_def
    using so' gi' rd' rv' sel ap' bs
    by (simp add: self2_def s2'_def)
  have c3: "rid = make_ref_ind_dict (self_SORTED_FIRST_VAL self0) (sort rvl)"
    by (simp add: rid_def srl_def)
  have c5: "self_index_alice self1 = Val index" by (simp add: s1)
  have c7: "list_all2 (\<lambda>n v. 0 \<le> n \<and> rid (nat n) = Some v) (concat numss) vs"
    using vs(2) nums by simp
  have c8: "self_alice_rep_vals self1 = self_alice_rep_vals self0 @ vs"
    by (simp add: s1 vs(1))
  have c10: "self_alice_rep_vals self2 = self_alice_rep_vals self0 @ vs @ vs"
    by (simp add: self2_def vs(1))
  have c11: "self_index_alice self2 = self_index_alice self1" by (simp add: self2_def s1)
  have c12: "self_alice_rep_index self2 = self_alice_rep_index self1" by (simp add: self2_def s1)
  show ?thesis
    apply (rule exI[of _ rvl], rule exI[of _ rd], rule exI[of _ rid], rule exI[of _ index])
    apply (rule exI[of _ numss], rule exI[of _ vs], rule exI[of _ self2])
    using rvl rd c3 gi0 c5 numss c7 c8 c9 c10 c11 c12 by simp
qed

lemma build_index_bob_twice:
  assumes "build_index_bob block_stats attr_select_list self0 = Some (Inr (stat1, self1))"
  shows "\<exists>rvl rd rid index numss vs self2.
             self_ref_val_list_bob self0 = Some rvl \<and> self_rec_dict_bob self0 = Val rd
           \<and> rid = make_ref_ind_dict (self_SORTED_FIRST_VAL self0) (sort rvl)
           \<and> generate_sorted_index self0 rd attr_select_list (sort rvl) rid = Some (Inr index)
           \<and> self_index_bob self1 = Val index
           \<and> list_all2 (\<lambda>key nums. ref_nums_of_key key = Inr nums) (map fst index) numss
           \<and> list_all2 (\<lambda>n v. 0 \<le> n \<and> rid (nat n) = Some v) (concat numss) vs
           \<and> self_bob_rep_vals self1 = self_bob_rep_vals self0 @ vs
           \<and> build_index_bob block_stats attr_select_list self1 = Some (Inr (stat1, self2))
           \<and> self_bob_rep_vals self2 = self_bob_rep_vals self0 @ vs @ vs
           \<and> self_index_bob self2 = self_index_bob self1
           \<and> self_bob_rep_index self2 = self_bob_rep_index self1"
proof -
  let ?c = "self0\<lparr> self_attr_select_list_bob := Val attr_select_list \<rparr>"
  from assms obtain rvl where rvl: "self_ref_val_list_bob self0 = Some rvl"
    by (auto simp: build_index_bob_def sort_ref_values_bob_def Let_def split: option.splits)
  define srl where "srl = sort rvl"
  define rid where "rid = make_ref_ind_dict (self_SORTED_FIRST_VAL self0) srl"
  define s2 where "s2 = ?c\<lparr> self_ref_ind_dict_bob := Some rid,
                             self_sort_ref_val_list_bob := Val srl \<rparr>"
  have so: "sort_ref_values_bob ?c = Inr s2"
    by (simp add: sort_ref_values_bob_def rvl Let_def s2_def srl_def rid_def)
  from assms so obtain rd where rd: "self_rec_dict_bob self0 = Val rd"
    by (cases "self_rec_dict_bob self0")
       (auto simp: build_index_bob_def Let_def s2_def split: sum.splits)
  from assms so rd obtain index where
    gi: "generate_sorted_index s2 rd attr_select_list srl rid = Some (Inr index)"
    by (auto simp: build_index_bob_def Let_def s2_def split: sum.splits option.splits)
  from assms so rd gi obtain nums ri where sel: "select_rep_ref_vals index rid = Inr (nums, ri)"
    by (auto simp: build_index_bob_def Let_def s2_def split: sum.splits option.splits)
  from assms so rd gi sel obtain rv where
    ap: "append_rep_vals rid nums (self_bob_rep_vals self0) = Inr rv"
    by (auto simp: build_index_bob_def Let_def s2_def split: sum.splits option.splits)
  from assms so rd gi sel ap have bs: "block_stats index = Inr stat1"
    and s1: "self1 = s2\<lparr> self_index_bob := Val index, self_bob_rep_index := ri,
                        self_bob_rep_vals := rv \<rparr>"
    by (auto simp: build_index_bob_def Let_def s2_def split: sum.splits option.splits)
  from append_rep_vals_app[OF ap] obtain vs where vs: "rv = self_bob_rep_vals self0 @ vs"
    "list_all2 (\<lambda>n v. 0 \<le> n \<and> rid (nat n) = Some v) nums vs"
    "\<forall>acc'. append_rep_vals rid nums acc' = Inr (acc' @ vs)" by blast
  from sel obtain numss where
    numss: "list_all2 (\<lambda>key ns. ref_nums_of_key key = Inr ns) (map fst index) numss"
    and nums: "nums = concat numss"
    unfolding select_rep_ref_vals_def using select_loop_positions by fastforce
  have gi0: "generate_sorted_index self0 rd attr_select_list (sort rvl) rid = Some (Inr index)"
    using gi generate_sorted_index_fields[of s2 self0 rd attr_select_list srl rid]
    by (simp add: s2_def srl_def)
  let ?d = "self1\<lparr> self_attr_select_list_bob := Val attr_select_list \<rparr>"
  define s2' where "s2' = ?d\<lparr> self_ref_ind_dict_bob := Some rid,
                             self_sort_ref_val_list_bob := Val srl \<rparr>"
  have so': "sort_ref_values_bob ?d = Inr s2'"
    by (simp add: sort_ref_values_bob_def rvl Let_def s2'_def srl_def rid_def s1 s2_def)
  have gi': "generate_sorted_index s2' rd attr_select_list srl rid = Some (Inr index)"
    using gi generate_sorted_index_fields[of s2' s2 rd attr_select_list srl rid]
    by (simp add: s2'_def s1 s2_def)
  have rd': "self_rec_dict_bob s2' = Val rd" by (simp add: s2'_def s1 s2_def rd)
  have rv': "self_bob_rep_vals s2' = rv" by (simp add: s2'_def s1 s2_def)
  define self2 where "self2 = s2'\<lparr> self_index_bob := Val index, self_bob_rep_index := ri,
                        self_bob_rep_vals := rv @ vs \<rparr>"
  have ap': "append_rep_vals rid nums rv = Inr (rv @ vs)" using vs(3) by simp
  have c9: "build_index_bob block_stats attr_select_list self1 = Some (Inr (stat1, self2))"
    unfolding build_index_bob_def Let_def
    using so' gi' rd' rv' sel ap' bs
    by (simp add: self2_def s2'_def)
  have c3: "rid = make_ref_ind_dict (self_SORTED_FIRST_VAL self0) (sort rvl)"
    by (simp add: rid_def srl_def)
  have c5: "self_index_bob self1 = Val index" by (simp add: s1)
  have c7: "list_all2 (\<lambda>n v. 0 \<le> n \<and> rid (nat n) = Some v) (concat numss) vs"
    using vs(2) nums by simp
  have c8: "self_bob_rep_vals self1 = self_bob_rep_vals self0 @ vs"
    by (simp add: s1 vs(1))
  have c10: "self_bob_rep_vals self2 = self_bob_rep_vals self0 @ vs @ vs"
    by (simp add: self2_def vs(1))
  have c11: "self_index_bob self2 = self_index_bob self1" by (simp add: self2_def s1)
  have c12: "self_bob_rep_index self2 = self_bob_rep_index self1" by (simp add: self2_def s1)
  show ?thesis
    apply (rule exI[of _ rvl], rule exI[of _ rd], rule exI[of _ rid], rule exI[of _ index])
    apply (rule exI[of _ numss], rule exI[of _ vs], rule exI[of _ self2])
    using rvl rd c3 gi0 c5 numss c7 c8 c9 c10 c11 c12 by simp
qed

lemma ex_build0:
  "(case build_index_alice no_stats [0] ex_loaded0 of
      Some (Inr (stat, self1)) \<Rightarrow>
        self_index_alice self1 = Val [(''b_0_'', [1, 2, 3]), (''b_1_'', [4])]
        \<and> self_alice_rep_vals self1 = ['''', ''b'']
    | _ \<Rightarrow> False)"
  by code_simp

lemma ex_build0_bob:
  "(case build_index_bob no_stats [0] ex_loaded0 of
      Some (Inr (stat, self1)) \<Rightarrow>
        self_index_bob self1 = Val [(''b_0_'', [5, 6]), (''b_1_'', [7])]
        \<and> self_bob_rep_vals self1 = ['''', ''a'']
    | _ \<Rightarrow> False)"
  by code_simp

text \<open>
  C10. \<^verbatim>\<open>build_index_alice\<close> appends the run's exposed reference values to
  \<^verbatim>\<open>alice_rep_vals\<close> without clearing the list. When a call returns, \<open>index\<close> is
  what \<^verbatim>\<open>__generate_sorted_index__\<close> made of the instance's records and sorted
  reference values; the exposed values \<open>vs\<close> are the reference values at all the
  positions of all the keys of \<open>index\<close>, in the order of the keys; and the list is the
  old one followed by \<open>vs\<close>. A second call on the resulting instance with the same
  arguments returns too, with the same statistics, the same \<^verbatim>\<open>index_alice\<close> and
  \<^verbatim>\<open>alice_rep_index\<close>, and \<open>vs\<close> appended once more: after two calls on a new
  instance the list is \<open>vs @ vs\<close>. The same for Bob.
\<close>

theorem build_index_accumulates_rep_vals:
  "(build_index_alice block_stats attr_select_list self0 = Some (Inr (stat1, self1)) \<longrightarrow>
      (\<exists>rvl rd rid index numss vs self2.
             self_ref_val_list_alice self0 = Some rvl \<and> self_rec_dict_alice self0 = Val rd
           \<and> rid = make_ref_ind_dict (self_SORTED_FIRST_VAL self0) (sort rvl)
           \<and> generate_sorted_index self0 rd attr_select_list (sort rvl) rid = Some (Inr index)
           \<and> self_index_alice self1 = Val index
           \<and> list_all2 (\<lambda>key nums. ref_nums_of_key key = Inr nums) (map fst index) numss
           \<and> list_all2 (\<lambda>n v. 0 \<le> n \<and> rid (nat n) = Some v) (concat numss) vs
           \<and> self_alice_rep_vals self1 = self_alice_rep_vals self0 @ vs
           \<and> build_index_alice block_stats attr_select_list self1 = Some (Inr (stat1, self2))
           \<and> self_alice_rep_vals self2 = self_alice_rep_vals self0 @ vs @ vs
           \<and> self_index_alice self2 = self_index_alice self1
           \<and> self_alice_rep_index self2 = self_alice_rep_index self1))
   \<and> (build_index_bob block_stats attr_select_list self0 = Some (Inr (stat1', self1')) \<longrightarrow>
      (\<exists>rvl rd rid index numss vs self2.
             self_ref_val_list_bob self0 = Some rvl \<and> self_rec_dict_bob self0 = Val rd
           \<and> rid = make_ref_ind_dict (self_SORTED_FIRST_VAL self0) (sort rvl)
           \<and> generate_sorted_index self0 rd attr_select_list (sort rvl) rid = Some (Inr index)
           \<and> self_index_bob self1' = Val index
           \<and> list_all2 (\<lambda>key nums. ref_nums_of_key key = Inr nums) (map fst index) numss
           \<and> list_all2 (\<lambda>n v. 0 \<le> n \<and> rid (nat n) = Some v) (concat numss) vs
           \<and> self_bob_rep_vals self1' = self_bob_rep_vals self0 @ vs
           \<and> build_index_bob block_stats attr_select_list self1' = Some (Inr (stat1', self2))
           \<and> self_bob_rep_vals self2 = self_bob_rep_vals self0 @ vs @ vs
           \<and> self_index_bob self2 = self_index_bob self1'
           \<and> self_bob_rep_index self2 = self_bob_rep_index self1'))"
proof (intro conjI impI)
  assume "build_index_alice block_stats attr_select_list self0 = Some (Inr (stat1, self1))"
  then show "\<exists>rvl rd rid index numss vs self2.
             self_ref_val_list_alice self0 = Some rvl \<and> self_rec_dict_alice self0 = Val rd
           \<and> rid = make_ref_ind_dict (self_SORTED_FIRST_VAL self0) (sort rvl)
           \<and> generate_sorted_index self0 rd attr_select_list (sort rvl) rid = Some (Inr index)
           \<and> self_index_alice self1 = Val index
           \<and> list_all2 (\<lambda>key nums. ref_nums_of_key key = Inr nums) (map fst index) numss
           \<and> list_all2 (\<lambda>n v. 0 \<le> n \<and> rid (nat n) = Some v) (concat numss) vs
           \<and> self_alice_rep_vals self1 = self_alice_rep_vals self0 @ vs
           \<and> build_index_alice block_stats attr_select_list self1 = Some (Inr (stat1, self2))
           \<and> self_alice_rep_vals self2 = self_alice_rep_vals self0 @ vs @ vs
           \<and> self_index_alice self2 = self_index_alice self1
           \<and> self_alice_rep_index self2 = self_alice_rep_index self1"
    by (rule build_index_alice_twice)
next
  assume "build_index_bob block_stats attr_select_list self0 = Some (Inr (stat1', self1'))"
  then show "\<exists>rvl rd rid index numss vs self2.
             self_ref_val_list_bob self0 = Some rvl \<and> self_rec_dict_bob self0 = Val rd
           \<and> rid = make_ref_ind_dict (self_SORTED_FIRST_VAL self0) (sort rvl)
           \<and> generate_sorted_index self0 rd attr_select_list (sort rvl) rid = Some (Inr index)
           \<and> self_index_bob self1' = Val index
           \<and> list_all2 (\<lambda>key nums. ref_nums_of_key key = Inr nums) (map fst index) numss
           \<and> list_all2 (\<lambda>n v. 0 \<le> n \<and> rid (nat n) = Some v) (concat numss) vs
           \<and> self_bob_rep_vals self1' = self_bob_rep_vals self0 @ vs
           \<and> build_index_bob block_stats attr_select_list self1' = Some (Inr (stat1', self2))
           \<and> self_bob_rep_vals self2 = self_bob_rep_vals self0 @ vs @ vs
           \<and> self_index_bob self2 = self_index_bob self1'
           \<and> self_bob_rep_index self2 = self_bob_rep_index self1'"
    by (rule build_index_bob_twice)
qed

theorem build_index_accumulates_rep_vals_witness:
  "(\<exists>stat1 self1 self2.
      build_index_alice no_stats [0] ex_loaded0 = Some (Inr (stat1, self1))
      \<and> self_index_alice self1 = Val [(''b_0_'', [1, 2, 3]), (''b_1_'', [4])]
      \<and> self_alice_rep_vals self1 = ['''', ''b'']
      \<and> build_index_alice no_stats [0] self1 = Some (Inr (stat1, self2))
      \<and> self_alice_rep_vals self2 = ['''', ''b'', '''', ''b'']
      \<and> self_index_alice self2 = Val [(''b_0_'', [1, 2, 3]), (''b_1_'', [4])])
   \<and> (\<exists>stat1 self1 self2.
      build_index_bob no_stats [0] ex_loaded0 = Some (Inr (stat1, self1))
      \<and> self_index_bob self1 = Val [(''b_0_'', [5, 6]), (''b_1_'', [7])]
      \<and> self_bob_rep_vals self1 = ['''', ''a'']
      \<and> build_index_bob no_stats [0] self1 = Some (Inr (stat1, self2))
      \<and> self_bob_rep_vals self2 = ['''', ''a'', '''', ''a'']
      \<and> self_index_bob self2 = Val [(''b_0_'', [5, 6]), (''b_1_'', [7])])"
proof -
  have e: "self_alice_rep_vals ex_loaded0 = []" "self_bob_rep_vals ex_loaded0 = []"
    by (simp_all add: ex_loaded0_def ex_loaded_def ex_snn_def init_snn_def)
  from ex_build0 obtain sa a1 where
    a: "build_index_alice no_stats [0] ex_loaded0 = Some (Inr (sa, a1))"
    and av: "self_alice_rep_vals a1 = ['''', ''b'']"
    and ai: "self_index_alice a1 = Val [(''b_0_'', [1, 2, 3]), (''b_1_'', [4])]"
    by (auto split: option.splits sum.splits)
  from ex_build0_bob obtain sb b1 where
    b: "build_index_bob no_stats [0] ex_loaded0 = Some (Inr (sb, b1))"
    and bv: "self_bob_rep_vals b1 = ['''', ''a'']"
    and bi: "self_index_bob b1 = Val [(''b_0_'', [5, 6]), (''b_1_'', [7])]"
    by (auto split: option.splits sum.splits)
  note t = build_index_accumulates_rep_vals[of no_stats "[0]" ex_loaded0 sa a1 sb b1]
  from t[THEN conjunct1, rule_format, OF a] obtain vs a2 where
    A1: "self_alice_rep_vals a1 = self_alice_rep_vals ex_loaded0 @ vs" and
    A2: "build_index_alice no_stats [0] a1 = Some (Inr (sa, a2))" and
    A3: "self_alice_rep_vals a2 = self_alice_rep_vals ex_loaded0 @ vs @ vs" and
    A4: "self_index_alice a2 = self_index_alice a1"
    by blast
  from t[THEN conjunct2, rule_format, OF b] obtain vs' b2 where
    B1: "self_bob_rep_vals b1 = self_bob_rep_vals ex_loaded0 @ vs'" and
    B2: "build_index_bob no_stats [0] b1 = Some (Inr (sb, b2))" and
    B3: "self_bob_rep_vals b2 = self_bob_rep_vals ex_loaded0 @ vs' @ vs'" and
    B4: "self_index_bob b2 = self_index_bob b1"
    by blast
  have va: "vs = ['''', ''b'']" using A1 e(1) av by simp
  have vb: "vs' = ['''', ''a'']" using B1 e(2) bv by simp
  have pa: "\<exists>stat1 self1 self2.
      build_index_alice no_stats [0] ex_loaded0 = Some (Inr (stat1, self1))
      \<and> self_index_alice self1 = Val [(''b_0_'', [1, 2, 3]), (''b_1_'', [4])]
      \<and> self_alice_rep_vals self1 = ['''', ''b'']
      \<and> build_index_alice no_stats [0] self1 = Some (Inr (stat1, self2))
      \<and> self_alice_rep_vals self2 = ['''', ''b'', '''', ''b'']
      \<and> self_index_alice self2 = Val [(''b_0_'', [1, 2, 3]), (''b_1_'', [4])]"
    by (rule exI[of _ sa], rule exI[of _ a1], rule exI[of _ a2])
       (simp add: a av A2 A3 A4 ai va e)
  have pb: "\<exists>stat1 self1 self2.
      build_index_bob no_stats [0] ex_loaded0 = Some (Inr (stat1, self1))
      \<and> self_index_bob self1 = Val [(''b_0_'', [5, 6]), (''b_1_'', [7])]
      \<and> self_bob_rep_vals self1 = ['''', ''a'']
      \<and> build_index_bob no_stats [0] self1 = Some (Inr (stat1, self2))
      \<and> self_bob_rep_vals self2 = ['''', ''a'', '''', ''a'']
      \<and> self_index_bob self2 = Val [(''b_0_'', [5, 6]), (''b_1_'', [7])]"
    by (rule exI[of _ sb], rule exI[of _ b1], rule exI[of _ b2])
       (simp add: b bv B2 B3 B4 bi vb e)
  from pa pb show ?thesis by (rule conjI)
qed

subsection \<open>Generating blocks without an index\<close>

lemma build_index_alice_frame:
  assumes "build_index_alice block_stats attr_select_list self0 = Some (Inr (stat1, self1))"
  shows "self_index_bob self1 = self_index_bob self0 \<and> self_index_alice self1 \<noteq> Unbound"
proof -
  let ?a = "self0\<lparr> self_attr_select_list_alice := Val attr_select_list \<rparr>"
  from assms obtain rvl where rvl: "self_ref_val_list_alice self0 = Some rvl"
    by (auto simp: build_index_alice_def sort_ref_values_alice_def Let_def split: option.splits)
  define srl where "srl = sort rvl"
  define rid where "rid = make_ref_ind_dict (self_SORTED_FIRST_VAL self0) srl"
  define s2 where "s2 = ?a\<lparr> self_ref_ind_dict_alice := Some rid,
                             self_sort_ref_val_list_alice := Val srl \<rparr>"
  have so: "sort_ref_values_alice ?a = Inr s2"
    by (simp add: sort_ref_values_alice_def rvl Let_def s2_def srl_def rid_def)
  from assms so obtain rd where rd: "self_rec_dict_alice self0 = Val rd"
    by (cases "self_rec_dict_alice self0")
       (auto simp: build_index_alice_def Let_def s2_def split: sum.splits)
  from assms so rd obtain index where gi: "generate_sorted_index s2 rd attr_select_list srl rid = Some (Inr index)"
    by (auto simp: build_index_alice_def Let_def s2_def split: sum.splits option.splits)
  from assms so rd gi obtain nums ri where sel: "select_rep_ref_vals index rid = Inr (nums, ri)"
    by (auto simp: build_index_alice_def Let_def s2_def split: sum.splits option.splits)
  from assms so rd gi sel obtain rv where ap: "append_rep_vals rid nums (self_alice_rep_vals self0) = Inr rv"
    by (auto simp: build_index_alice_def Let_def s2_def split: sum.splits option.splits)
  from assms so rd gi sel ap have
    s1: "self1 = s2\<lparr> self_index_alice := Val index, self_alice_rep_index := ri,
                        self_alice_rep_vals := rv \<rparr>"
    by (auto simp: build_index_alice_def Let_def s2_def split: sum.splits option.splits)
  show ?thesis by (simp add: s1 s2_def)
qed

text \<open>
  C9. \<^verbatim>\<open>generate_blocks\<close> raises when an index has not been built. Neither
  \<^verbatim>\<open>__init__\<close> binds \<^verbatim>\<open>index_alice\<close> or \<^verbatim>\<open>index_bob\<close>; they are bound by
  \<^verbatim>\<open>build_index_alice\<close> and \<^verbatim>\<open>build_index_bob\<close> only, so before that the
  reads \<^verbatim>\<open>self.index_alice\<close>, \<^verbatim>\<open>self.index_bob\<close> at the head of
  \<^verbatim>\<open>generate_blocks\<close> raise AttributeError, in both classes, and no table is
  returned. In particular an instance on which only Alice's index was built is rejected.
\<close>

theorem generate_blocks_rejects_missing_index:
  "(self_index_alice self = Unbound \<or> self_index_bob self = Unbound \<longrightarrow>
      generate_blocks self = Some (Inl AttributeError))
   \<and> (build_index_alice block_stats attr_select_list self0 = Some (Inr (stat1, self1))
        \<and> self_index_bob self0 = Unbound \<longrightarrow>
      generate_blocks self1 = Some (Inl AttributeError))
   \<and> (pself_index_alice pself = Unbound \<or> pself_index_bob pself = Unbound \<longrightarrow>
      psig_generate_blocks pself = Inl AttributeError)"
proof (intro conjI impI)
  assume "self_index_alice self = Unbound \<or> self_index_bob self = Unbound"
  then show "generate_blocks self = Some (Inl AttributeError)"
    by (auto simp: generate_blocks_def read_attr_def split: attr.splits)
next
  assume "build_index_alice block_stats attr_select_list self0 = Some (Inr (stat1, self1))
        \<and> self_index_bob self0 = Unbound"
  then have "self_index_bob self1 = Unbound" using build_index_alice_frame by metis
  then show "generate_blocks self1 = Some (Inl AttributeError)"
    by (auto simp: generate_blocks_def read_attr_def split: attr.splits)
next
  assume "pself_index_alice pself = Unbound \<or> pself_index_bob pself = Unbound"
  then show "psig_generate_blocks pself = Inl AttributeError"
    by (auto simp: psig_generate_blocks_def read_attr_def split: attr.splits)
qed

theorem generate_blocks_rejects_missing_index_witness:
  "generate_blocks ex_loaded = Some (Inl AttributeError)
   \<and> (\<exists>stat1 self1. build_index_alice no_stats [0] ex_loaded = Some (Inr (stat1, self1))
        \<and> self_index_alice self1 = Val [(''b_0_1_'', [4, 1, 2, 3])]
        \<and> generate_blocks self1 = Some (Inl AttributeError))
   \<and> psig_generate_blocks ex_psig = Inl AttributeError
   \<and> psig_generate_blocks (ex_psig\<lparr>pself_index_alice := Val [(''ab'', [1])]\<rparr>)
        = Inl AttributeError"
proof -
  have u: "self_index_alice ex_loaded = Unbound" "self_index_bob ex_loaded = Unbound"
    by (simp_all add: ex_loaded_def ex_snn_def init_snn_def)
  have p: "pself_index_alice ex_psig = Unbound" "pself_index_bob ex_psig = Unbound"
    "pself_index_bob (ex_psig\<lparr>pself_index_alice := Val [(''ab'', [1])]\<rparr>) = Unbound"
    by (simp_all add: ex_psig_def init_psig_def)
  from ex_build obtain sa a1 where
    a: "build_index_alice no_stats [0] ex_loaded = Some (Inr (sa, a1))"
    and ai: "self_index_alice a1 = Val [(''b_0_1_'', [4, 1, 2, 3])]"
    by (auto split: option.splits sum.splits)
  note t1 = generate_blocks_rejects_missing_index[THEN conjunct1, rule_format]
  have 1: "generate_blocks ex_loaded = Some (Inl AttributeError)"
    by (rule t1) (simp add: u)
  have 2: "generate_blocks a1 = Some (Inl AttributeError)"
    by (rule generate_blocks_rejects_missing_index[THEN conjunct2, THEN conjunct1, rule_format,
          of no_stats "[0]" ex_loaded sa a1]) (simp add: a u)
  have 3: "psig_generate_blocks ex_psig = Inl AttributeError"
    by (rule generate_blocks_rejects_missing_index[THEN conjunct2, THEN conjunct2, rule_format])
       (simp add: p)
  have 4: "psig_generate_blocks (ex_psig\<lparr>pself_index_alice := Val [(''ab'', [1])]\<rparr>)
        = Inl AttributeError"
    by (rule generate_blocks_rejects_missing_index[THEN conjunct2, THEN conjunct2, rule_format])
       (simp add: p)
  from 1 2 3 4 a ai show ?thesis by blast
qed

end
